theory Spec2Isabelle
  imports Main "HOL-Library.Log_Nat"
begin

section \<open>Python values used by the liquidation script\<close>

subsection \<open>Exceptions\<close>

text \<open>
  The exceptions that the script catches or lets escape.  \<open>HTTPError\<close> carries the
  status code of its response (the vendor client raises it from a response) and its
  message; \<open>OtherError\<close> stands for any other exception class raised by the vendor
  client.  \<open>str_of\<close> is Python's \<open>str(e)\<close>.
\<close>

datatype py_error =
    OverflowError string
  | ValueError string
  | HTTPError nat string
  | KeyError string
  | EOFError
  | OtherError string

fun str_of :: "py_error \<Rightarrow> string" where
  "str_of (OverflowError m) = m"
| "str_of (ValueError m) = m"
| "str_of (HTTPError c m) = m"
| "str_of (KeyError k) = CHR 0x27 # k @ [CHR 0x27]"
| "str_of EOFError = []"
| "str_of (OtherError m) = m"

subsection \<open>Floats\<close>

text \<open>
  A Python \<open>float\<close> is an IEEE 754 binary64 number.  A finite one is given by its exact
  rational value; the two zeros are identified (they compare equal, and the script
  never prints a negative zero it computed).  Arithmetic computes the exact result and
  rounds it to the nearest double, ties to even, with gradual underflow and overflow
  to infinity.
\<close>

datatype pyfloat = Finite rat | PosInf | NegInf | NaN

definition pow2 :: "int \<Rightarrow> rat" where
  "pow2 k = (if 0 \<le> k then 2 ^ nat k else 1 / 2 ^ nat (- k))"

definition floor_log2 :: "rat \<Rightarrow> int" where
  \<comment> \<open>for \<open>0 < a\<close>: the \<open>e\<close> with \<open>2 ^ e \<le> a < 2 ^ (e + 1)\<close>\<close>
  "floor_log2 a = (if 1 \<le> a then bitlen \<lfloor>a\<rfloor> - 1 else - bitlen (\<lceil>1 / a\<rceil> - 1))"

definition round_half_even :: "rat \<Rightarrow> int" where
  "round_half_even x =
     (let f = \<lfloor>x\<rfloor>; r = x - of_int f
      in if r < 1 / 2 then f
         else if 1 / 2 < r then f + 1
         else if even f then f else f + 1)"

definition round_to_double :: "rat \<Rightarrow> pyfloat" where
  "round_to_double x =
     (if x = 0 then Finite 0
      else let a = \<bar>x\<bar>;
               q = pow2 (max (floor_log2 a - 52) (- 1074));
               r = of_int (round_half_even (a / q)) * q
           in if 0 < r \<and> 1024 \<le> floor_log2 r then (if 0 < x then PosInf else NegInf)
              else Finite (if 0 < x then r else - r))"

definition is_double :: "pyfloat \<Rightarrow> bool" where
  "is_double x = (case x of Finite q \<Rightarrow> round_to_double q = Finite q | _ \<Rightarrow> True)"

fun fsign :: "pyfloat \<Rightarrow> int" where
  "fsign (Finite a) = sgn \<lfloor>a\<rfloor> + sgn \<lceil>a\<rceil> "
| "fsign PosInf = 1"
| "fsign NegInf = - 1"
| "fsign NaN = 0"

fun fmul :: "pyfloat \<Rightarrow> pyfloat \<Rightarrow> pyfloat" where
  "fmul (Finite a) (Finite b) = round_to_double (a * b)"
| "fmul NaN y = NaN"
| "fmul x NaN = NaN"
| "fmul x y =
     (if fsign x * fsign y = 0 then NaN
      else if 0 < fsign x * fsign y then PosInf else NegInf)"

text \<open>
  Float division.  Python raises \<open>ZeroDivisionError\<close> for a zero divisor; the only
  division of the script is guarded by \<open>amount > 0\<close>, see \<open>unit_price_default\<close>, so the
  value chosen here for a zero divisor is never used.
\<close>

fun fdiv :: "pyfloat \<Rightarrow> pyfloat \<Rightarrow> pyfloat" where
  "fdiv (Finite a) (Finite b) = (if b = 0 then NaN else round_to_double (a / b))"
| "fdiv NaN y = NaN"
| "fdiv x NaN = NaN"
| "fdiv (Finite a) y = Finite 0"
| "fdiv x (Finite b) = (if 0 < fsign x * fsign (Finite b) then PosInf else NegInf)"
| "fdiv x y = NaN"

text \<open>Comparisons: every comparison with \<open>NaN\<close> is false.\<close>

fun flt :: "pyfloat \<Rightarrow> pyfloat \<Rightarrow> bool" where
  "flt NaN y = False"
| "flt x NaN = False"
| "flt (Finite a) (Finite b) = (a < b)"
| "flt x PosInf = (x \<noteq> PosInf)"
| "flt NegInf y = (y \<noteq> NegInf)"
| "flt x y = False"

fun fle :: "pyfloat \<Rightarrow> pyfloat \<Rightarrow> bool" where
  "fle NaN y = False"
| "fle x NaN = False"
| "fle x y = (x = y \<or> flt x y)"

abbreviation fgt :: "pyfloat \<Rightarrow> pyfloat \<Rightarrow> bool" where
  "fgt x y \<equiv> flt y x"

abbreviation fge :: "pyfloat \<Rightarrow> pyfloat \<Rightarrow> bool" where
  "fge x y \<equiv> fle y x"

text \<open>\<open>math.floor\<close> returns an \<open>int\<close> and raises on infinities and \<open>NaN\<close>.\<close>

fun math_floor :: "pyfloat \<Rightarrow> py_error + int" where
  "math_floor (Finite a) = Inr \<lfloor>a\<rfloor>"
| "math_floor NaN = Inl (ValueError ''cannot convert float NaN to integer'')"
| "math_floor x = Inl (OverflowError ''cannot convert float infinity to integer'')"

text \<open>
  \<open>int / int\<close> is the correctly rounded quotient; \<open>float * int\<close> converts the \<open>int\<close>
  first.  Both raise \<open>OverflowError\<close> when the \<open>int\<close> or the quotient is too large
  for a double.
\<close>

definition float_of_int :: "int \<Rightarrow> py_error + pyfloat" where
  "float_of_int n =
     (case round_to_double (of_int n) of
        Finite q \<Rightarrow> Inr (Finite q)
      | _ \<Rightarrow> Inl (OverflowError ''int too large to convert to float''))"

definition int_truediv :: "int \<Rightarrow> int \<Rightarrow> py_error + pyfloat" where
  \<comment> \<open>for a divisor other than 0\<close>
  "int_truediv a b =
     (case round_to_double (of_int a / of_int b) of
        Finite q \<Rightarrow> Inr (Finite q)
      | _ \<Rightarrow> Inl (OverflowError ''integer division result too large for a float''))"

subsection \<open>Strings\<close>

definition digit_char :: "int \<Rightarrow> char" where
  "digit_char d = ''0123456789'' ! nat (d mod 10)"

function str_digits :: "int \<Rightarrow> string" where
  \<comment> \<open>the decimal digits of an \<open>int\<close> that is not negative\<close>
  "str_digits n = (if n < 10 then [digit_char n] else str_digits (n div 10) @ [digit_char n])"
  by pat_completeness auto
termination
  by (relation "measure nat") auto

declare str_digits.simps [simp del]

definition str_int :: "int \<Rightarrow> string" where
  \<comment> \<open>\<open>str(n)\<close> for an \<open>int\<close>\<close>
  "str_int n = (if n < 0 then CHR ''-'' # str_digits (- n) else str_digits n)"

definition rstrip :: "char \<Rightarrow> string \<Rightarrow> string" where
  \<comment> \<open>\<open>s.rstrip(c)\<close> for a single character \<open>c\<close>\<close>
  "rstrip c s = rev (dropWhile (\<lambda>x. x = c) (rev s))"

text \<open>
  \<open>f"{x:.{p}f}"\<close>: the exact value of the double, rounded half-even to \<open>p\<close> decimals,
  with at least one digit before the point.
\<close>

fun format_fixed :: "nat \<Rightarrow> pyfloat \<Rightarrow> string" where
  "format_fixed p (Finite x) =
     (let ds = str_digits (round_half_even (\<bar>x\<bar> * 10 ^ p));
          padded = replicate (Suc p - length ds) CHR ''0'' @ ds;
          k = length padded - p;
          body = take k padded @ (if p = 0 then [] else CHR ''.'' # drop k padded)
      in if x < 0 then CHR ''-'' # body else body)"
| "format_fixed p PosInf = ''inf''"
| "format_fixed p NegInf = ''-inf''"
| "format_fixed p NaN = ''nan''"

fun starts_with :: "string \<Rightarrow> string \<Rightarrow> bool" where
  \<comment> \<open>\<open>s.startswith(p)\<close>, arguments in the order pattern, string\<close>
  "starts_with [] s = True"
| "starts_with (p # ps) [] = False"
| "starts_with (p # ps) (c # cs) = (p = c \<and> starts_with ps cs)"

fun str_contains :: "string \<Rightarrow> string \<Rightarrow> bool" where
  \<comment> \<open>\<open>p in s\<close> for strings, arguments in the order pattern, string\<close>
  "str_contains p [] = (p = [])"
| "str_contains p (c # cs) = (starts_with p (c # cs) \<or> str_contains p cs)"

section \<open>Order-size formatting\<close>

definition precision_map :: "(string \<times> nat) list" where
  "precision_map =
     [(''BTC'', 8), (''ETH'', 8), (''LTC'', 8), (''BCH'', 8), (''DOT'', 8), (''LINK'', 8),
      (''UNI'', 8), (''AAVE'', 8), (''SUSHI'', 8), (''CRV'', 8), (''YFI'', 8), (''COMP'', 8),
      (''INDEX'', 8), (''CVX'', 8), (''EIGEN'', 8), (''KERNEL'', 8), (''ETHFI'', 8),
      (''USDC'', 6), (''USDT'', 6), (''DAI'', 6), (''BUSD'', 6), (''TUSD'', 6),
      (''HOPR'', 6), (''OMNI'', 6), (''CLANKER'', 6), (''LOKA'', 6), (''SWELL'', 6),
      (''FIS'', 6), (''PENGU'', 6), (''SD'', 6), (''GIGA'', 6), (''HFT'', 6),
      (''ALT'', 6), (''REZ'', 6), (''SXT'', 6),
      (''DOGE'', 4), (''SHIB'', 4), (''PEPE'', 4), (''FLOKI'', 4), (''BONK'', 4), (''WIF'', 4),
      (''PIRATE'', 4), (''POPCAT'', 4), (''COOKIE'', 4), (''KEYCAT'', 4),
      (''TURBO'', 4), (''DEGEN'', 4), (''MOG'', 4), (''DOGINME'', 4),
      (''ALEPH'', 4), (''MOODENG'', 4), (''AST'', 4), (''PRCL'', 4), (''PROMPT'', 4),
      (''PNUT'', 4), (''IDEX'', 4), (''MDT'', 4), (''SYRUP'', 4),
      (''STRK'', 2), (''ARB'', 2), (''OP'', 2), (''MATIC'', 2), (''AVAX'', 2), (''SOL'', 2),
      (''ATOM'', 2), (''NEAR'', 2), (''FTM'', 2), (''ONE'', 2), (''ALGO'', 2),
      (''EDGE'', 0), (''ZORA'', 0),
      (''XRP'', 0), (''XLM'', 0), (''ADA'', 0), (''TRX'', 0), (''EOS'', 0), (''XTZ'', 0)]"

definition precision_of :: "string \<Rightarrow> nat" where
  \<comment> \<open>\<open>precision_map.get(currency, 6)\<close>\<close>
  "precision_of currency = (case map_of precision_map currency of Some p \<Rightarrow> p | None \<Rightarrow> 6)"

definition format_amount_for_order :: "string \<Rightarrow> pyfloat \<Rightarrow> py_error + string" where
  "format_amount_for_order currency amount =
     (let precision = precision_of currency
      in if precision = 0 then
           (case math_floor amount of
              Inl e \<Rightarrow> Inl e
            | Inr n \<Rightarrow> Inr (str_int n))
         else
           (let multiplier = 10 ^ precision
            in case float_of_int multiplier of
                 Inl e \<Rightarrow> Inl e
               | Inr m \<Rightarrow>
                  (case math_floor (fmul amount m) of
                     Inl e \<Rightarrow> Inl e
                   | Inr n \<Rightarrow>
                      (case int_truediv n multiplier of
                         Inl e \<Rightarrow> Inl e
                       | Inr floored_amount \<Rightarrow>
                          (let formatted = format_fixed precision floored_amount
                           in Inr (if CHR ''.'' \<in> set formatted
                                   then rstrip CHR ''.'' (rstrip CHR ''0'' formatted)
                                   else formatted))))))"

text \<open>
  Reading an order size back: the number that a string of decimal digits with an
  optional sign and an optional point denotes.
\<close>

definition digit_val :: "char \<Rightarrow> int option" where
  "digit_val c =
     (if c \<in> set ''0123456789''
      then Some (int (length (takeWhile (\<lambda>d. d \<noteq> c) ''0123456789'')))
      else None)"

fun digits_val :: "int \<Rightarrow> string \<Rightarrow> int option" where
  "digits_val acc [] = Some acc"
| "digits_val acc (c # cs) =
     (case digit_val c of None \<Rightarrow> None | Some d \<Rightarrow> digits_val (acc * 10 + d) cs)"

definition decimal_value :: "string \<Rightarrow> rat option" where
  "decimal_value s =
     (let neg = (s \<noteq> [] \<and> hd s = CHR ''-'');
          body = (if neg then tl s else s);
          ip = takeWhile (\<lambda>c. c \<noteq> CHR ''.'') body;
          rest = dropWhile (\<lambda>c. c \<noteq> CHR ''.'') body;
          fp = (if rest = [] then [] else tl rest)
      in if ip = [] then None
         else case (digits_val 0 ip, digits_val 0 fp) of
                (Some i, Some f) \<Rightarrow>
                  Some ((if neg then - 1 else 1) * (of_int i + of_int f / 10 ^ length fp))
              | _ \<Rightarrow> None)"

section \<open>The brokerage, the clock and the terminal\<close>

text \<open>
  Everything outside the script is an \<open>env\<close>: for each operation the script consumes, the
  answer it gets, as a function of what the script has done so far (the \<open>history\<close> of
  its calls, sleeps, clock readings and prompts).  A call either returns or raises.
  The numbers in an answer are given as the \<open>float(...)\<close> of the text the vendor sends;
  where that conversion raises, so does the answer.  Logging is not modelled: it
  changes neither the control flow nor any value the script computes.
\<close>

datatype pyval = PNone | PStr string | PFloat pyfloat

datatype 'a response = Raises py_error | Returns 'a

record datetime =
  unix_seconds :: int
  isoformat :: string
  ymd_hms :: string

record order_request =
  product_id :: string
  side :: string
  client_order_id :: string
  base_size :: string

record order_response =
  order_id_attr :: "pyval option"
  id_attr :: "pyval option"

record spot_position =
  asset :: string
  total_balance_crypto :: "pyfloat response"
  total_balance_fiat :: "pyfloat response"
  account_uuid :: string

datatype event =
    GetPortfolios
  | GetPortfolioBreakdown string
  | GetProduct string
  | CreateOrder order_request
  | Sleep rat
  | ClockRead
  | Input string

record env =
  load_credentials :: "string \<Rightarrow> bool"
  get_portfolios :: "event list \<Rightarrow> string list response"
  get_portfolio_breakdown :: "event list \<Rightarrow> string \<Rightarrow> spot_position list response"
  get_product :: "event list \<Rightarrow> string \<Rightarrow> pyfloat response"
  create_order :: "event list \<Rightarrow> order_request \<Rightarrow> order_response response"
  now :: "event list \<Rightarrow> datetime"
  input :: "event list \<Rightarrow> string \<Rightarrow> string response"
  float_repr :: "pyfloat \<Rightarrow> string"

type_synonym csv_row = "string list"

record world =
  history :: "event list"
  files :: "string \<rightharpoonup> csv_row list"

definition log_event :: "event \<Rightarrow> world \<Rightarrow> world" where
  "log_event e w = w\<lparr>history := history w @ [e]\<rparr>"

definition client_get_portfolios :: "env \<Rightarrow> world \<Rightarrow> string list response \<times> world" where
  "client_get_portfolios env w = (get_portfolios env (history w), log_event GetPortfolios w)"

definition client_get_portfolio_breakdown ::
  "env \<Rightarrow> string \<Rightarrow> world \<Rightarrow> spot_position list response \<times> world" where
  "client_get_portfolio_breakdown env uuid w =
     (get_portfolio_breakdown env (history w) uuid, log_event (GetPortfolioBreakdown uuid) w)"

definition client_get_product :: "env \<Rightarrow> string \<Rightarrow> world \<Rightarrow> pyfloat response \<times> world" where
  "client_get_product env pid w = (get_product env (history w) pid, log_event (GetProduct pid) w)"

definition client_create_order ::
  "env \<Rightarrow> order_request \<Rightarrow> world \<Rightarrow> order_response response \<times> world" where
  "client_create_order env req w = (create_order env (history w) req, log_event (CreateOrder req) w)"

definition time_sleep :: "rat \<Rightarrow> world \<Rightarrow> world" where
  "time_sleep seconds w = log_event (Sleep seconds) w"

definition datetime_now :: "env \<Rightarrow> world \<Rightarrow> datetime \<times> world" where
  "datetime_now env w = (now env (history w), log_event ClockRead w)"

definition py_input :: "env \<Rightarrow> string \<Rightarrow> world \<Rightarrow> string response \<times> world" where
  "py_input env prompt w = (input env (history w) prompt, log_event (Input prompt) w)"

section \<open>Balances\<close>

text \<open>
  The balance dictionaries built by the script always have the keys \<open>account_id\<close>,
  \<open>currency\<close>, \<open>balance\<close> and \<open>currency_code\<close>; \<open>usd_value\<close> is present only for balances
  read from the portfolio breakdown.
\<close>

record holding =
  account_id :: string
  currency :: string
  balance :: pyfloat
  currency_code :: string
  usd_value :: "pyfloat option"

fun portfolio_assets :: "pyfloat \<Rightarrow> spot_position list \<Rightarrow> holding list" where
  "portfolio_assets min_threshold [] = []"
| "portfolio_assets min_threshold (a # as) =
     (case total_balance_crypto a of
        Raises e \<Rightarrow> portfolio_assets min_threshold as
      | Returns balance_value \<Rightarrow>
         (case total_balance_fiat a of
            Raises e \<Rightarrow> portfolio_assets min_threshold as
          | Returns usd \<Rightarrow>
             if fgt balance_value (Finite 0) \<and> fge usd min_threshold
             then \<lparr>account_id = account_uuid a, currency = asset a, balance = balance_value,
                    currency_code = asset a, usd_value = Some usd\<rparr>
                  # portfolio_assets min_threshold as
             else portfolio_assets min_threshold as))"

definition get_portfolio_balances :: "env \<Rightarrow> pyfloat \<Rightarrow> world \<Rightarrow> holding list \<times> world" where
  "get_portfolio_balances env min_threshold w =
     (case client_get_portfolios env w of
        (Raises e, w1) \<Rightarrow> ([], w1)
      | (Returns [], w1) \<Rightarrow> ([], w1)
      | (Returns (portfolio_id # _), w1) \<Rightarrow>
         (case client_get_portfolio_breakdown env portfolio_id w1 of
            (Raises e, w2) \<Rightarrow> ([], w2)
          | (Returns breakdown_list, w2) \<Rightarrow> (portfolio_assets min_threshold breakdown_list, w2)))"

section \<open>Prices\<close>

definition lookup_price ::
  "env \<Rightarrow> string \<Rightarrow> (string \<rightharpoonup> pyfloat) \<times> world \<Rightarrow> (string \<rightharpoonup> pyfloat) \<times> world" where
  \<comment> \<open>one iteration of the loop of \<open>get_current_prices\<close>, for the currency \<open>cur\<close>\<close>
  "lookup_price env cur pw =
     (let prices = fst pw; w = snd pw; pid = cur @ ''-USD''
      in case client_get_product env pid w of
           (Returns price, w1) \<Rightarrow> (prices(cur \<mapsto> price), time_sleep (1 / 10) w1)
         | (Raises (HTTPError status_code m), w1) \<Rightarrow>
             if status_code = 429 then
               (case client_get_product env pid (time_sleep 2 w1) of
                  (Returns price, w2) \<Rightarrow> (prices(cur \<mapsto> price), w2)
                | (Raises retry_e, w2) \<Rightarrow> (prices, w2))
             else (prices, w1)
         | (Raises e, w1) \<Rightarrow> (prices, w1))"

fun get_current_prices_loop ::
  "env \<Rightarrow> string list \<Rightarrow> (string \<rightharpoonup> pyfloat) \<times> world \<Rightarrow> (string \<rightharpoonup> pyfloat) \<times> world" where
  "get_current_prices_loop env [] pw = pw"
| "get_current_prices_loop env (cur # rest) pw =
     get_current_prices_loop env rest (lookup_price env cur pw)"

definition get_current_prices ::
  "env \<Rightarrow> string list \<Rightarrow> world \<Rightarrow> (string \<rightharpoonup> pyfloat) \<times> world" where
  "get_current_prices env currencies w = get_current_prices_loop env currencies (Map.empty, w)"

section \<open>The liquidation plan\<close>

record liquidation_order =
  currency :: string
  amount :: pyfloat
  price_per_unit :: pyfloat
  usd_value :: pyfloat
  account_id :: string

definition cash_equivalents :: "string list" where
  "cash_equivalents = [''USDC'', ''USD'']"

definition currencies_to_liquidate :: "holding list \<Rightarrow> holding list" where
  "currencies_to_liquidate balances =
     [b \<leftarrow> balances. currency_code b \<notin> set cash_equivalents \<and> fgt (balance b) (Finite 0)]"

definition currencies_needing_prices :: "holding list \<Rightarrow> string list" where
  "currencies_needing_prices bs = [currency_code b. b \<leftarrow> bs, holding.usd_value b = None]"

definition unit_price_default :: "pyfloat \<Rightarrow> pyfloat \<Rightarrow> pyfloat" where
  \<comment> \<open>\<open>usd_value / amount if amount > 0 else 0\<close>\<close>
  "unit_price_default usd amt = (if fgt amt (Finite 0) then fdiv usd amt else Finite 0)"

definition valuation :: "(string \<rightharpoonup> pyfloat) \<Rightarrow> holding \<Rightarrow> (pyfloat \<times> pyfloat) option" where
  \<comment> \<open>the unit price and the USD value of a balance; \<open>None\<close> when the loop skips it\<close>
  "valuation prices b =
     (case holding.usd_value b of
        Some usd \<Rightarrow>
          Some (case prices (currency_code b) of
                  Some p \<Rightarrow> p
                | None \<Rightarrow> unit_price_default usd (balance b), usd)
      | None \<Rightarrow>
         (case prices (currency_code b) of
            Some p \<Rightarrow> Some (p, fmul (balance b) p)
          | None \<Rightarrow> None))"

fun plan_loop :: "pyfloat \<Rightarrow> (string \<rightharpoonup> pyfloat) \<Rightarrow> holding list \<Rightarrow> liquidation_order list" where
  "plan_loop min_threshold prices [] = []"
| "plan_loop min_threshold prices (b # bs) =
     (case valuation prices b of
        None \<Rightarrow> plan_loop min_threshold prices bs
      | Some (ppu, usd) \<Rightarrow>
          if fge usd min_threshold
          then \<lparr>currency = currency_code b, amount = balance b, price_per_unit = ppu,
                 usd_value = usd, account_id = holding.account_id b\<rparr>
               # plan_loop min_threshold prices bs
          else plan_loop min_threshold prices bs)"

definition calculate_liquidation_plan ::
  "env \<Rightarrow> pyfloat \<Rightarrow> holding list \<Rightarrow> world \<Rightarrow> liquidation_order list \<times> world" where
  "calculate_liquidation_plan env min_threshold balances w =
     (let to_liquidate = currencies_to_liquidate balances
      in if to_liquidate = [] then ([], w)
         else let needing = currencies_needing_prices to_liquidate;
                  pw = (if needing \<noteq> [] then get_current_prices env needing w
                        else (Map.empty, w))
              in (plan_loop min_threshold (fst pw) to_liquidate, snd pw))"

section \<open>Execution\<close>

text \<open>
  An executed trade is a dictionary whose keys depend on the outcome, so it is an
  association list from keys to values, in the order of the dictionary literal.
\<close>

type_synonym trade = "(string \<times> pyval) list"

definition failed_trade :: "env \<Rightarrow> liquidation_order \<Rightarrow> py_error \<Rightarrow> world \<Rightarrow> trade \<times> world" where
  \<comment> \<open>the \<open>except Exception as e\<close> branch\<close>
  "failed_trade env t e w =
     (let error_msg = (if str_contains ''Invalid product_id'' (str_of e)
                       then ''No USD trading pair available'' else str_of e)
      in case datetime_now env w of
           (t1, w1) \<Rightarrow>
             ([(''currency'', PStr (currency t)), (''amount'', PFloat (amount t)),
               (''usd_value'', PFloat (usd_value t)), (''order_id'', PNone),
               (''status'', PStr ''FAILED''), (''error'', PStr error_msg),
               (''timestamp'', PStr (isoformat t1))], w1))"

definition submit_order ::
  "env \<Rightarrow> liquidation_order \<Rightarrow> world \<Rightarrow> (py_error + order_response \<times> string) \<times> world" where
  \<comment> \<open>the \<open>try\<close> block up to the answer of \<open>create_order\<close>: the exception raised, or the
      order and the client order id\<close>
  "submit_order env t w =
     (case datetime_now env w of
        (t0, w1) \<Rightarrow>
          (let cid = ''liquidation_'' @ currency t @ ''_'' @ str_int (unix_seconds t0)
           in case format_amount_for_order (currency t) (amount t) of
                Inl e \<Rightarrow> (Inl e, w1)
              | Inr sz \<Rightarrow>
                 (case client_create_order env
                         \<lparr>product_id = currency t @ ''-USD'', side = ''SELL'',
                          client_order_id = cid, base_size = sz\<rparr> w1 of
                    (Raises e, w2) \<Rightarrow> (Inl e, w2)
                  | (Returns ord, w2) \<Rightarrow> (Inr (ord, cid), w2))))"

definition execute_trade :: "env \<Rightarrow> bool \<Rightarrow> liquidation_order \<Rightarrow> world \<Rightarrow> trade \<times> world" where
  \<comment> \<open>the body of the loop of \<open>execute_liquidation\<close>\<close>
  "execute_trade env live_mode t w =
     (if live_mode then
        (case submit_order env t w of
           (Inl e, w1) \<Rightarrow> failed_trade env t e w1
         | (Inr (ord, cid), w1) \<Rightarrow>
            (let oid = (case order_id_attr ord of
                          Some v \<Rightarrow> v
                        | None \<Rightarrow> (case id_attr ord of
                                      Some v \<Rightarrow> v
                                    | None \<Rightarrow> PStr cid))
             in case datetime_now env w1 of
                  (t1, w2) \<Rightarrow>
                    ([(''currency'', PStr (currency t)), (''amount'', PFloat (amount t)),
                      (''usd_value'', PFloat (usd_value t)), (''order_id'', oid),
                      (''status'', PStr ''EXECUTED''),
                      (''timestamp'', PStr (isoformat t1))], w2)))
      else
        (case datetime_now env w of
           (t1, w1) \<Rightarrow>
             ([(''currency'', PStr (currency t)), (''amount'', PFloat (amount t)),
               (''usd_value'', PFloat (usd_value t)), (''order_id'', PStr ''TRIAL_MODE''),
               (''status'', PStr ''TRIAL''), (''timestamp'', PStr (isoformat t1))], w1)))"

fun execute_loop :: "env \<Rightarrow> bool \<Rightarrow> liquidation_order list \<Rightarrow> world \<Rightarrow> trade list \<times> world" where
  "execute_loop env live_mode [] w = ([], w)"
| "execute_loop env live_mode (t # ts) w =
     (case execute_trade env live_mode t w of
        (r, w1) \<Rightarrow> (case execute_loop env live_mode ts w1 of (rs, w2) \<Rightarrow> (r # rs, w2)))"

definition execute_liquidation ::
  "env \<Rightarrow> liquidation_order list \<Rightarrow> bool \<Rightarrow> world \<Rightarrow> trade list \<times> world" where
  "execute_liquidation env liquidation_plan live_mode w =
     (if liquidation_plan = [] then ([], w)
      else execute_loop env live_mode liquidation_plan w)"

section \<open>The report\<close>

text \<open>
  The report file is the list of rows handed to the \<open>csv\<close> writer, each row the list of
  its fields as text; quoting and line ends are the \<open>csv\<close> module's.  A field that is
  \<open>None\<close> is written as the empty string, a string as it is, a float as its \<open>repr\<close>.
\<close>

definition fieldnames :: "string list" where
  "fieldnames =
     [''currency'', ''amount'', ''usd_value'', ''order_id'', ''status'', ''timestamp'', ''error'']"

definition csv_field :: "env \<Rightarrow> pyval \<Rightarrow> string" where
  "csv_field env v = (case v of PNone \<Rightarrow> [] | PStr s \<Rightarrow> s | PFloat x \<Rightarrow> float_repr env x)"

fun fill_missing :: "string list \<Rightarrow> trade \<Rightarrow> trade" where
  \<comment> \<open>\<open>for field in fieldnames: if field not in trade: trade[field] = None\<close>\<close>
  "fill_missing [] tr = tr"
| "fill_missing (f # fs) tr =
     fill_missing fs (if map_of tr f = None then tr @ [(f, PNone)] else tr)"

definition str_repr :: "string \<Rightarrow> string" where
  \<comment> \<open>\<open>repr(s)\<close> of a string with no quote, backslash or control character in it\<close>
  "str_repr s = CHR 0x27 # s @ [CHR 0x27]"

fun join :: "string \<Rightarrow> string list \<Rightarrow> string" where
  \<comment> \<open>\<open>sep.join(parts)\<close>\<close>
  "join sep [] = []"
| "join sep [x] = x"
| "join sep (x # y # ys) = x @ sep @ join sep (y # ys)"

definition writerow :: "env \<Rightarrow> trade \<Rightarrow> py_error + csv_row" where
  \<comment> \<open>\<open>DictWriter.writerow\<close>: keys outside the field names raise a \<open>ValueError\<close> that lists
      them (Python lists them in the iteration order of a set; here in the order of the
      dictionary)\<close>
  "writerow env tr =
     (let wrong_fields = [k \<leftarrow> map fst tr. k \<notin> set fieldnames]
      in if wrong_fields \<noteq> []
         then Inl (ValueError (''dict contains fields not in fieldnames: ''
                                 @ join '', '' (map str_repr wrong_fields)))
         else Inr (map (\<lambda>f. case map_of tr f of None \<Rightarrow> [] | Some v \<Rightarrow> csv_field env v)
                     fieldnames))"

fun write_trades :: "env \<Rightarrow> trade list \<Rightarrow> csv_row list \<Rightarrow> py_error option \<times> csv_row list" where
  \<comment> \<open>the loop over the trades; the rows written before an exception stay in the file\<close>
  "write_trades env [] rows = (None, rows)"
| "write_trades env (tr # trs) rows =
     (case writerow env (fill_missing fieldnames tr) of
        Inl e \<Rightarrow> (Some e, rows)
      | Inr row \<Rightarrow> write_trades env trs (rows @ [row]))"

fun any_trial :: "trade list \<Rightarrow> py_error + bool" where
  \<comment> \<open>\<open>any(trade['status'] == 'TRIAL' for trade in executed_trades)\<close>\<close>
  "any_trial [] = Inr False"
| "any_trial (tr # trs) =
     (case map_of tr ''status'' of
        None \<Rightarrow> Inl (KeyError ''status'')
      | Some v \<Rightarrow> if v = PStr ''TRIAL'' then Inr True else any_trial trs)"

definition report_filename :: "env \<Rightarrow> trade list \<Rightarrow> string option \<Rightarrow> world \<Rightarrow> (py_error + string) \<times> world" where
  \<comment> \<open>\<open>if not filename: ...\<close>: \<open>None\<close> and the empty string both ask for a generated name\<close>
  "report_filename env executed_trades filename w =
     (if filename = None \<or> filename = Some [] then
        (case datetime_now env w of
           (t, w1) \<Rightarrow>
             (case any_trial executed_trades of
                Inl e \<Rightarrow> (Inl e, w1)
              | Inr trial \<Rightarrow>
                  (Inr (''coinbase_liquidation_report_'' @ (if trial then ''trial'' else ''live'')
                        @ ''_'' @ ymd_hms t @ ''.csv''), w1)))
      else (Inr (the filename), w))"

definition generate_csv_report ::
  "env \<Rightarrow> trade list \<Rightarrow> string option \<Rightarrow> world \<Rightarrow> (py_error + string) \<times> world" where
  "generate_csv_report env executed_trades filename w =
     (case report_filename env executed_trades filename w of
        (Inl e, w1) \<Rightarrow> (Inl e, w1)
      | (Inr name, w1) \<Rightarrow>
          if executed_trades \<noteq> [] then
            (case write_trades env executed_trades [fieldnames] of
               (None, rows) \<Rightarrow> (Inr name, w1\<lparr>files := (files w1)(name \<mapsto> rows)\<rparr>)
             | (Some e, rows) \<Rightarrow> (Inl e, w1\<lparr>files := (files w1)(name \<mapsto> rows)\<rparr>))
          else (Inr name, w1\<lparr>files := (files w1)(name \<mapsto> [])\<rparr>))"

section \<open>The run\<close>

definition run_liquidation ::
  "env \<Rightarrow> string \<Rightarrow> pyfloat \<Rightarrow> bool \<Rightarrow> world \<Rightarrow> (py_error + bool) \<times> world" where
  "run_liquidation env api_key_path min_threshold live_mode w =
     (if \<not> load_credentials env api_key_path then (Inr False, w)
      else case get_portfolio_balances env min_threshold w of
        (balances, w1) \<Rightarrow>
          if balances = [] then (Inr True, w1)
          else case calculate_liquidation_plan env min_threshold balances w1 of
            (liquidation_plan, w2) \<Rightarrow>
              if liquidation_plan = [] then (Inr True, w2)
              else case (if live_mode
                         then (case py_input env ''Type 'CONFIRM' to proceed: '' w2 of
                                 (Raises e, w3) \<Rightarrow> (Inl e, w3)
                               | (Returns confirmation, w3) \<Rightarrow>
                                   (Inr (confirmation = ''CONFIRM''), w3))
                         else (Inr True, w2)) of
                (Inl e, w3) \<Rightarrow> (Inl e, w3)
              | (Inr False, w3) \<Rightarrow> (Inr False, w3)
              | (Inr True, w3) \<Rightarrow>
                  (case execute_liquidation env liquidation_plan live_mode w3 of
                     (executed_trades, w4) \<Rightarrow>
                       (case generate_csv_report env executed_trades None w4 of
                          (Inl e, w5) \<Rightarrow> (Inl e, w5)
                        | (Inr csv_filename, w5) \<Rightarrow> (Inr True, w5))))"

text \<open>
  \<open>main\<close> after the command line is parsed: the exit status of the process.  Returning
  normally is status 0, \<open>sys.exit(1)\<close> is status 1, and so is an exception that nothing
  catches.
\<close>

definition main :: "env \<Rightarrow> string \<Rightarrow> pyfloat \<Rightarrow> bool \<Rightarrow> world \<Rightarrow> int \<times> world" where
  "main env api_key min_threshold live w =
     (case run_liquidation env api_key min_threshold live w of
        (Inr success, w1) \<Rightarrow> (if success then (0, w1) else (1, w1))
      | (Inl e, w1) \<Rightarrow> (1, w1))"

definition initial_world :: world where
  "initial_world = \<lparr>history = [], files = Map.empty\<rparr>"

section \<open>Notions used to state the properties\<close>

definition field :: "string \<Rightarrow> trade \<Rightarrow> pyval option" where
  \<comment> \<open>\<open>trade.get(key)\<close>, with \<open>None\<close> for a missing key\<close>
  "field k tr = map_of tr k"

fun submitted_orders :: "event list \<Rightarrow> order_request list" where
  \<comment> \<open>the orders that reached the order-submission endpoint\<close>
  "submitted_orders [] = []"
| "submitted_orders (CreateOrder req # es) = req # submitted_orders es"
| "submitted_orders (e # es) = submitted_orders es"

definition planning_prices :: "env \<Rightarrow> holding list \<Rightarrow> world \<Rightarrow> string \<rightharpoonup> pyfloat" where
  \<comment> \<open>the prices that \<open>calculate_liquidation_plan\<close> looks up for these balances\<close>
  "planning_prices env balances w =
     (let needing = currencies_needing_prices (currencies_to_liquidate balances)
      in if needing \<noteq> [] then fst (get_current_prices env needing w) else Map.empty)"

definition holding_order ::
  "pyfloat \<Rightarrow> (string \<rightharpoonup> pyfloat) \<Rightarrow> holding \<Rightarrow> liquidation_order option" where
  \<comment> \<open>what one balance contributes to the plan: no order, or one\<close>
  "holding_order min_threshold prices b =
     (if currency_code b \<in> set cash_equivalents then None
      else if \<not> fgt (balance b) (Finite 0) then None
      else case valuation prices b of
             None \<Rightarrow> None
           | Some (ppu, usd) \<Rightarrow>
               if fge usd min_threshold
               then Some \<lparr>currency = currency_code b, amount = balance b, price_per_unit = ppu,
                          usd_value = usd, account_id = holding.account_id b\<rparr>
               else None)"

definition planning :: "env \<Rightarrow> pyfloat \<Rightarrow> world \<Rightarrow> liquidation_order list \<times> world" where
  \<comment> \<open>the plan that \<open>run_liquidation\<close> computes from the balances it reads, and the world
      once it is computed\<close>
  "planning env min_threshold w =
     (case get_portfolio_balances env min_threshold w of
        (balances, w1) \<Rightarrow> calculate_liquidation_plan env min_threshold balances w1)"

definition is_execution_result :: "trade \<Rightarrow> bool" where
  \<comment> \<open>a dictionary as \<open>execute_liquidation\<close> builds them: the six keys of every outcome,
      and possibly \<open>error\<close>\<close>
  "is_execution_result tr =
     (distinct (map fst tr) \<and> set (map fst tr) \<subseteq> set fieldnames \<and>
      list_all (\<lambda>k. k \<in> set (map fst tr)) (butlast fieldnames))"

definition csv_cell :: "env \<Rightarrow> trade \<Rightarrow> string \<Rightarrow> string" where
  \<comment> \<open>the text of one column of a trade: empty for a missing key and for \<open>None\<close>\<close>
  "csv_cell env tr f = (case field f tr of None \<Rightarrow> [] | Some v \<Rightarrow> csv_field env v)"

section \<open>Example inputs\<close>

definition float_literal :: "rat \<Rightarrow> pyfloat" where
  \<comment> \<open>the float that a decimal literal denotes\<close>
  "float_literal q = round_to_double q"

definition example_repr :: "pyfloat \<Rightarrow> string" where
  \<comment> \<open>\<open>repr\<close> of a float, on the floats of the examples\<close>
  "example_repr x =
     (if x = float_literal (1 / 100) then ''0.01''
      else if x = float_literal (3 / 2) then ''1.5''
      else if x = float_literal 650 then ''650.0''
      else if x = float_literal 3000 then ''3000.0''
      else ''?'')"

definition example_positions :: "spot_position list" where
  "example_positions =
     [\<lparr>asset = ''BTC'', total_balance_crypto = Returns (float_literal (1 / 100)),
        total_balance_fiat = Returns (float_literal 650), account_uuid = ''acct-btc''\<rparr>,
      \<lparr>asset = ''USDC'', total_balance_crypto = Returns (float_literal 500),
        total_balance_fiat = Returns (float_literal 500), account_uuid = ''acct-usdc''\<rparr>,
      \<lparr>asset = ''DOGE'', total_balance_crypto = Returns (float_literal 1000),
        total_balance_fiat = Returns (float_literal (8 / 100)), account_uuid = ''acct-doge''\<rparr>]"

definition example_env :: env where
  \<comment> \<open>a brokerage with three positions, no ETH-USD pair, and a rate limit on prices that
      only ETH-USD gets past on the second try; the user types \<open>no\<close>\<close>
  "example_env =
     \<lparr>load_credentials = (\<lambda>path. True),
      get_portfolios = (\<lambda>h. Returns [''portfolio-1'']),
      get_portfolio_breakdown = (\<lambda>h uuid. Returns example_positions),
      get_product = (\<lambda>h pid. if pid = ''ETH-USD'' \<and> GetProduct pid \<in> set h
                              then Returns (float_literal 2000)
                              else Raises (HTTPError 429 ''Too Many Requests'')),
      create_order = (\<lambda>h req. if product_id req = ''ETH-USD''
                                then Raises (OtherError ''Invalid product_id'')
                                else Returns \<lparr>order_id_attr = Some (PStr ''order-1''),
                                              id_attr = None\<rparr>),
      now = (\<lambda>h. \<lparr>unix_seconds = 1700000000, isoformat = ''2023-11-14T22:13:20'',
                    ymd_hms = ''20231114_221320''\<rparr>),
      input = (\<lambda>h prompt. Returns ''no''),
      float_repr = example_repr\<rparr>"

definition btc_holding :: holding where
  "btc_holding =
     \<lparr>holding.account_id = ''acct-btc'', currency = ''BTC'', balance = float_literal (1 / 100),
      currency_code = ''BTC'', usd_value = Some (float_literal 650)\<rparr>"

definition usdc_holding :: holding where
  "usdc_holding =
     \<lparr>holding.account_id = ''acct-usdc'', currency = ''USDC'', balance = float_literal 500,
      currency_code = ''USDC'', usd_value = Some (float_literal 500)\<rparr>"

definition doge_holding :: holding where
  "doge_holding =
     \<lparr>holding.account_id = ''acct-doge'', currency = ''DOGE'', balance = float_literal 1000,
      currency_code = ''DOGE'', usd_value = Some (float_literal (8 / 100))\<rparr>"

definition example_holdings :: "holding list" where
  \<comment> \<open>the scenario of the specification: BTC worth 650 USD, USDC worth 500 USD, DOGE worth 0.08 USD\<close>
  "example_holdings = [btc_holding, usdc_holding, doge_holding]"

definition btc_order :: liquidation_order where
  "btc_order =
     \<lparr>currency = ''BTC'', amount = float_literal (1 / 100), price_per_unit = float_literal 65000,
      usd_value = float_literal 650, account_id = ''acct-btc''\<rparr>"

definition doge_order :: liquidation_order where
  "doge_order =
     \<lparr>currency = ''DOGE'', amount = float_literal 1000,
      price_per_unit = float_literal (8 / 100000), usd_value = float_literal (8 / 100),
      account_id = ''acct-doge''\<rparr>"

definition eth_order :: liquidation_order where
  "eth_order =
     \<lparr>currency = ''ETH'', amount = float_literal (3 / 2), price_per_unit = float_literal 2000,
      usd_value = float_literal 3000, account_id = ''acct-eth''\<rparr>"

definition example_plan :: "liquidation_order list" where
  "example_plan = [eth_order, btc_order]"

definition example_trades :: "trade list" where
  \<comment> \<open>the results of executing \<open>example_plan\<close> in live mode: ETH fails, BTC is sold\<close>
  "example_trades = fst (execute_liquidation example_env example_plan True initial_world)"

section \<open>Basic facts about the world\<close>

lemma datetime_now_simps [simp]:
  "fst (datetime_now env w) = now env (history w)"
  "snd (datetime_now env w) = log_event ClockRead w"
  by (simp_all add: datetime_now_def)

lemma history_log_event [simp]: "history (log_event e w) = history w @ [e]"
  by (simp add: log_event_def)

lemma files_log_event [simp]: "files (log_event e w) = files w"
  by (simp add: log_event_def)

section \<open>The rounding of floats\<close>

text \<open>
  \<open>round_half_even\<close> picks a nearest integer, and \<open>floor_log2\<close> is the binary exponent of
  a positive number; \<open>round_to_double\<close> uses it to place the 53 bits of the result.
\<close>

lemma round_half_even_nearest: "\<bar>of_int (round_half_even x) - x\<bar> \<le> 1 / 2"
proof -
  have "of_int \<lfloor>x\<rfloor> \<le> x" "x < of_int \<lfloor>x\<rfloor> + 1" by linarith+
  then show ?thesis
    by (auto simp: round_half_even_def Let_def)
qed

lemma round_half_even_int: "round_half_even (of_int n) = n"
  by (simp add: round_half_even_def)

lemma pow2_pos: "0 < pow2 k"
  by (simp add: pow2_def)

lemma pow2_nat: "0 \<le> k \<Longrightarrow> pow2 k = 2 ^ nat k"
  by (simp add: pow2_def)

lemma pow2_neg: "0 \<le> k \<Longrightarrow> pow2 (- k) = 1 / 2 ^ nat k"
  by (cases "k = 0") (simp_all add: pow2_def)

lemma floor_log2_bounds:
  assumes "0 < a"
  shows "pow2 (floor_log2 a) \<le> a \<and> a < pow2 (floor_log2 a + 1)"
proof (cases "1 \<le> a")
  case True
  let ?n = "\<lfloor>a\<rfloor>"
  have n: "0 < ?n" using True by simp
  from bitlen_bounds [OF n]
  have lo: "2 ^ nat (bitlen ?n - 1) \<le> ?n" and hi: "?n < 2 ^ nat (bitlen ?n)" by auto
  have b: "1 \<le> bitlen ?n" using n by (simp add: bitlen_alt_def)
  have "(2::rat) ^ nat (bitlen ?n - 1) = of_int (2 ^ nat (bitlen ?n - 1))" by simp
  also have "\<dots> \<le> of_int ?n" using lo by (simp only: of_int_le_iff)
  also have "\<dots> \<le> a" by simp
  finally have l: "pow2 (bitlen ?n - 1) \<le> a"
    using b by (simp add: pow2_nat)
  have "?n + 1 \<le> 2 ^ nat (bitlen ?n)" using hi by simp
  then have "(of_int (?n + 1) :: rat) \<le> of_int (2 ^ nat (bitlen ?n))"
    by (simp only: of_int_le_iff)
  moreover have "a < of_int (?n + 1)" by linarith
  ultimately have "a < 2 ^ nat (bitlen ?n)" by simp
  then have u: "a < pow2 (bitlen ?n - 1 + 1)"
    using b by (simp add: pow2_nat)
  from l u True show ?thesis by (simp add: floor_log2_def)
next
  case False
  let ?c = "\<lceil>1 / a\<rceil>"
  have inv: "1 < 1 / a" using False assms by simp
  then have c: "0 < ?c - 1" by linarith
  from bitlen_bounds [OF c]
  have lo: "2 ^ nat (bitlen (?c - 1) - 1) \<le> ?c - 1" and hi: "?c - 1 < 2 ^ nat (bitlen (?c - 1))"
    by auto
  let ?k = "bitlen (?c - 1)"
  have k: "1 \<le> ?k" using c by (simp add: bitlen_alt_def)
  have "?c \<le> 2 ^ nat ?k" using hi by simp
  then have "(of_int ?c :: rat) \<le> of_int (2 ^ nat ?k)" by (simp only: of_int_le_iff)
  then have A: "(of_int ?c :: rat) \<le> 2 ^ nat ?k" by simp
  have B: "1 / a \<le> of_int ?c" by (rule le_of_int_ceiling)
  from B A have "1 / a \<le> 2 ^ nat ?k" by (rule order_trans)
  then have "1 \<le> 2 ^ nat ?k * a" using assms by (simp add: field_simps)
  then have l: "pow2 (- ?k) \<le> a"
    using k by (simp add: pow2_neg field_simps)
  have "(of_int (2 ^ nat (?k - 1)) :: rat) \<le> of_int (?c - 1)" using lo by (simp only: of_int_le_iff)
  then have C: "(2 ^ nat (?k - 1) :: rat) \<le> of_int (?c - 1)" by simp
  have D: "of_int (?c - 1) < 1 / a" by linarith
  from C D have "2 ^ nat (?k - 1) < 1 / a" by (rule order_le_less_trans)
  then have "a < 1 / 2 ^ nat (?k - 1)" using assms by (simp add: field_simps)
  moreover have "pow2 (- (?k - 1)) = 1 / 2 ^ nat (?k - 1)"
    using k by (intro pow2_neg) simp
  ultimately have u: "a < pow2 (- (?k - 1))"
    by (simp only:)
  from l u False show ?thesis by (simp add: floor_log2_def)
qed

section \<open>Order sizes are not always rounded down\<close>

text \<open>
  The steps of \<open>format_amount_for_order\<close> for 1000000000000.0001 PEPE: the product with
  \<open>10 ** 4\<close> is rounded up to an even integer above the exact product, and the steps
  after it keep that integer.
\<close>

lemma overshoot_trace:
  "float_of_int (10 ^ 4) = Inr (Finite 10000)"
  "fmul (Finite (8192000000000001 / 8192)) (Finite 10000) = Finite 10000000000000002"
  "(8192000000000001 / 8192 :: rat) * 10000 < 10000000000000002"
  "math_floor (Finite 10000000000000002) = Inr 10000000000000002"
  "int_truediv 10000000000000002 (10 ^ 4) = Inr (Finite (8192000000000002 / 8192))"
  "format_fixed 4 (Finite (8192000000000002 / 8192)) = ''1000000000000.0002''"
  by code_simp+

text \<open>
  Claim C2 says that the order size, read as a decimal number, never exceeds the
  quantity.  The code floors \<open>amount * 10 ** precision\<close>, but that product is itself
  rounded to a double before it is floored.  For a holding of
  \<open>1000000000000.0001\<close> PEPE (the double \<open>8192000000000001 / 8192\<close>, precision 4) the
  product \<open>10000000000000001.2207...\<close> lies above \<open>2 ^ 53\<close> and is rounded up to
  \<open>10000000000000002\<close>, so the order size is \<open>1000000000000.0002\<close>, more than the
  holding.
\<close>

theorem format_amount_for_order_overshoots:
  "is_double (Finite (8192000000000001 / 8192)) \<and>
   precision_of ''PEPE'' = 4 \<and>
   format_amount_for_order ''PEPE'' (Finite (8192000000000001 / 8192))
     = Inr ''1000000000000.0002'' \<and>
   decimal_value ''1000000000000.0002'' = Some (10000000000000002 / 10000) \<and>
   (8192000000000001 / 8192 :: rat) < 10000000000000002 / 10000"
  by code_simp

section \<open>The report of an empty run\<close>

text \<open>
  Claim C10: for an empty list of results \<open>generate_csv_report\<close> returns the name of
  the report (the one given, or the generated one, whose mode is \<open>live\<close>) and creates
  that file with no row at all, so without the header.
\<close>

theorem empty_report_is_empty_file:
  "\<exists>name.
     fst (generate_csv_report env [] filename w) = Inr name \<and>
     files (snd (generate_csv_report env [] filename w)) = (files w)(name \<mapsto> []) \<and>
     name = (case filename of
               None \<Rightarrow> ''coinbase_liquidation_report_live_'' @ ymd_hms (now env (history w)) @ ''.csv''
             | Some f \<Rightarrow> if f = [] then ''coinbase_liquidation_report_live_''
                                        @ ymd_hms (now env (history w)) @ ''.csv''
                         else f)"
  by (cases filename)
     (simp_all add: generate_csv_report_def report_filename_def datetime_now_def split: prod.splits)

section \<open>Execution, one result per order\<close>

lemma submitted_orders_append:
  "submitted_orders (xs @ ys) = submitted_orders xs @ submitted_orders ys"
  by (induction xs rule: submitted_orders.induct) simp_all

lemma submitted_orders_clock_reads: "submitted_orders (replicate n ClockRead) = []"
  by (induction n) simp_all

lemma execute_loop_Cons:
  "execute_loop env live (t # ts) w =
     (fst (execute_trade env live t w)
        # fst (execute_loop env live ts (snd (execute_trade env live t w))),
      snd (execute_loop env live ts (snd (execute_trade env live t w))))"
  by (simp split: prod.splits)

declare execute_loop.simps(2) [simp del]

lemma execute_trade_trial:
  "execute_trade env False t w =
     ([(''currency'', PStr (currency t)), (''amount'', PFloat (amount t)),
       (''usd_value'', PFloat (usd_value t)), (''order_id'', PStr ''TRIAL_MODE''),
       (''status'', PStr ''TRIAL''), (''timestamp'', PStr (isoformat (now env (history w))))],
      log_event ClockRead w)"
  by (simp add: execute_trade_def datetime_now_def)

lemma execute_loop_trial_fields:
  "map (field ''currency'') (fst (execute_loop env False plan w))
     = map (\<lambda>t. Some (PStr (currency t))) plan \<and>
   map (field ''status'') (fst (execute_loop env False plan w))
     = replicate (length plan) (Some (PStr ''TRIAL'')) \<and>
   map (field ''order_id'') (fst (execute_loop env False plan w))
     = replicate (length plan) (Some (PStr ''TRIAL_MODE''))"
  by (induction plan arbitrary: w)
     (simp_all add: execute_loop_Cons execute_trade_trial field_def)

lemma execute_loop_trial_world:
  "snd (execute_loop env False plan w)
     = w\<lparr>history := history w @ replicate (length plan) ClockRead\<rparr>"
proof (induction plan arbitrary: w)
  case Nil
  then show ?case by simp
next
  case (Cons t ts)
  have "replicate (length ts) ClockRead @ [ClockRead] = ClockRead # replicate (length ts) ClockRead"
    by (simp add: replicate_append_same)
  with Cons show ?case
    by (simp add: execute_loop_Cons execute_trade_trial log_event_def)
qed

subsection \<open>Simulate mode\<close>

text \<open>
  Claim C1 says that in simulate mode every planned asset yields one result with
  status \<open>SIMULATED\<close>.  The status that the code writes is the string \<open>TRIAL\<close>: for the
  two orders of \<open>example_plan\<close> the statuses are \<open>TRIAL\<close>, \<open>TRIAL\<close>.
\<close>

theorem simulate_mode_status_is_not_SIMULATED:
  "map (field ''status'') (fst (execute_liquidation example_env example_plan False initial_world))
     = [Some (PStr ''TRIAL''), Some (PStr ''TRIAL'')] \<and>
   PStr ''TRIAL'' \<noteq> PStr ''SIMULATED''"
  by (simp add: execute_liquidation_def example_plan_def execute_loop_Cons execute_trade_trial
      field_def)

text \<open>
  Claim C1 as amended: for every plan, \<open>execute_liquidation\<close> in simulate mode yields
  one result per planned asset, in the order of the plan, with status \<open>TRIAL\<close> and order
  id \<open>TRIAL_MODE\<close>; all it does to the outside is read the clock once per asset, so no
  order reaches the order-submission endpoint.
\<close>

theorem simulate_mode_yields_trial_results:
  "length (fst (execute_liquidation env plan False w)) = length plan \<and>
   map (field ''currency'') (fst (execute_liquidation env plan False w))
     = map (\<lambda>t. Some (PStr (currency t))) plan \<and>
   map (field ''status'') (fst (execute_liquidation env plan False w))
     = replicate (length plan) (Some (PStr ''TRIAL'')) \<and>
   map (field ''order_id'') (fst (execute_liquidation env plan False w))
     = replicate (length plan) (Some (PStr ''TRIAL_MODE'')) \<and>
   history (snd (execute_liquidation env plan False w))
     = history w @ replicate (length plan) ClockRead \<and>
   submitted_orders (history (snd (execute_liquidation env plan False w)))
     = submitted_orders (history w)"
proof -
  have e: "execute_liquidation env plan False w = execute_loop env False plan w"
    by (cases plan) (simp_all add: execute_liquidation_def)
  have len: "length (fst (execute_loop env False plan w)) = length plan"
    using execute_loop_trial_fields [of env plan w]
    by (metis length_map)
  show ?thesis
    unfolding e
    using execute_loop_trial_fields [of env plan w] len
    by (simp add: execute_loop_trial_world submitted_orders_append submitted_orders_clock_reads)
qed

subsection \<open>Live mode\<close>

lemma starts_with_iff: "starts_with p s \<longleftrightarrow> (\<exists>b. s = p @ b)"
  by (induction p s rule: starts_with.induct) auto

lemma str_contains_iff: "str_contains p s \<longleftrightarrow> (\<exists>a b. s = a @ p @ b)"
proof (induction s)
  case Nil
  then show ?case by simp
next
  case (Cons c cs)
  show ?case
  proof
    assume "str_contains p (c # cs)"
    then consider "starts_with p (c # cs)" | "str_contains p cs" by auto
    then show "\<exists>a b. c # cs = a @ p @ b"
    proof cases
      case 1
      then obtain b where "c # cs = [] @ p @ b" by (auto simp: starts_with_iff)
      then show ?thesis by blast
    next
      case 2
      with Cons obtain a b where "cs = a @ p @ b" by blast
      then have "c # cs = (c # a) @ p @ b" by simp
      then show ?thesis by blast
    qed
  next
    assume "\<exists>a b. c # cs = a @ p @ b"
    then obtain a b where ab: "c # cs = a @ p @ b" by blast
    show "str_contains p (c # cs)"
    proof (cases a)
      case Nil
      with ab have "\<exists>b. c # cs = p @ b" by auto
      then have "starts_with p (c # cs)" by (simp only: starts_with_iff)
      then show ?thesis by (simp only: str_contains.simps) blast
    next
      case (Cons x xs)
      with ab have "cs = xs @ p @ b" by simp
      with Cons.IH show ?thesis by auto
    qed
  qed
qed

lemma submit_order_raises:
  assumes "format_amount_for_order (currency t) (amount t) = Inr sz"
    and "create_order env (history w @ [ClockRead])
           \<lparr>product_id = currency t @ ''-USD'', side = ''SELL'',
            client_order_id = ''liquidation_'' @ currency t @ ''_''
                                @ str_int (unix_seconds (now env (history w))),
            base_size = sz\<rparr> = Raises e"
  shows "fst (submit_order env t w) = Inl e"
  using assms by (simp add: submit_order_def datetime_now_def client_create_order_def)

lemma execute_liquidation_loop:
  "execute_liquidation env plan live w = execute_loop env live plan w"
  by (cases plan) (simp_all add: execute_liquidation_def)

lemma failed_trade_fields:
  "field ''currency'' (fst (failed_trade env t e w)) = Some (PStr (currency t))"
  "field ''status'' (fst (failed_trade env t e w)) = Some (PStr ''FAILED'')"
  "field ''order_id'' (fst (failed_trade env t e w)) = Some PNone"
  "field ''error'' (fst (failed_trade env t e w))
     = Some (PStr (if str_contains ''Invalid product_id'' (str_of e)
                   then ''No USD trading pair available'' else str_of e))"
  by (simp_all add: failed_trade_def field_def datetime_now_def)

lemma execute_trade_currency:
  "field ''currency'' (fst (execute_trade env live t w)) = Some (PStr (currency t))"
proof (cases live)
  case False
  then show ?thesis by (simp add: execute_trade_trial field_def)
next
  case True
  show ?thesis
  proof (cases "submit_order env t w")
    case (Pair r w1)
    show ?thesis
    proof (cases r)
      case (Inl e)
      with Pair True show ?thesis
        by (simp add: execute_trade_def failed_trade_fields)
    next
      case (Inr oc)
      with Pair True show ?thesis
        by (simp add: execute_trade_def field_def datetime_now_def split: prod.splits)
    qed
  qed
qed

lemma execute_loop_currencies:
  "map (field ''currency'') (fst (execute_loop env live plan w))
     = map (\<lambda>t. Some (PStr (currency t))) plan"
  by (induction plan arbitrary: w) (simp_all add: execute_loop_Cons execute_trade_currency)

lemma execute_loop_length: "length (fst (execute_loop env live plan w)) = length plan"
  using execute_loop_currencies [of env live plan w] by (metis length_map)

lemma execute_loop_append:
  "execute_loop env live (xs @ ys) w =
     (fst (execute_loop env live xs w) @ fst (execute_loop env live ys (snd (execute_loop env live xs w))),
      snd (execute_loop env live ys (snd (execute_loop env live xs w))))"
  by (induction xs arbitrary: w) (simp_all add: execute_loop_Cons)

lemma execute_trade_failed:
  "fst (submit_order env t w) = Inl e \<Longrightarrow>
   execute_trade env True t w = failed_trade env t e (snd (submit_order env t w))"
  by (cases "submit_order env t w") (simp add: execute_trade_def)

text \<open>
  Claim C6: in live mode, when the \<open>try\<close> block of an asset raises \<open>e\<close> (the size
  cannot be formatted, or \<open>create_order\<close> raises), wherever the asset stands in the
  plan, its result has status \<open>FAILED\<close>, no order id, and as error the text
  \<open>No USD trading pair available\<close> if the message of \<open>e\<close> contains
  \<open>Invalid product_id\<close>, the message itself otherwise; the batch goes on: the results
  are one per asset of the whole plan, in its order.
\<close>

theorem live_mode_failure_is_recorded:
  assumes "fst (submit_order env t (snd (execute_liquidation env pre True w))) = Inl e"
  shows "length (fst (execute_liquidation env (pre @ t # post) True w))
           = length pre + 1 + length post \<and>
         map (field ''currency'') (fst (execute_liquidation env (pre @ t # post) True w))
           = map (\<lambda>t. Some (PStr (currency t))) (pre @ t # post) \<and>
         field ''status'' (fst (execute_liquidation env (pre @ t # post) True w) ! length pre)
           = Some (PStr ''FAILED'') \<and>
         field ''order_id'' (fst (execute_liquidation env (pre @ t # post) True w) ! length pre)
           = Some PNone \<and>
         field ''error'' (fst (execute_liquidation env (pre @ t # post) True w) ! length pre)
           = Some (PStr (if str_contains ''Invalid product_id'' (str_of e)
                         then ''No USD trading pair available'' else str_of e))"
proof -
  let ?w1 = "snd (execute_loop env True pre w)"
  have sub: "fst (submit_order env t ?w1) = Inl e"
    using assms by (simp add: execute_liquidation_loop)
  have nth: "fst (execute_loop env True (pre @ t # post) w) ! length pre
               = fst (failed_trade env t e (snd (submit_order env t ?w1)))"
    by (simp add: execute_loop_append execute_loop_Cons execute_trade_failed [OF sub]
        nth_append execute_loop_length)
  show ?thesis
    unfolding execute_liquidation_loop nth
    by (simp add: failed_trade_fields execute_loop_length execute_loop_currencies)
qed

lemma example_order_sizes:
  "format_amount_for_order ''ETH'' (float_literal (3 / 2)) = Inr ''1.5''"
  "format_amount_for_order ''BTC'' (float_literal (1 / 100)) = Inr ''0.01''"
  by code_simp+

text \<open>
  The first order of \<open>example_plan\<close> is for ETH, which has no USD pair at the example
  brokerage; the BTC order after it is still processed.
\<close>

theorem live_mode_failure_is_recorded_witness:
  "fst (submit_order example_env (hd example_plan)
          (snd (execute_liquidation example_env [] True initial_world)))
     = Inl (OtherError ''Invalid product_id'') \<and>
   length (fst (execute_liquidation example_env example_plan True initial_world)) = 2 \<and>
   map (field ''currency'') (fst (execute_liquidation example_env example_plan True initial_world))
     = [Some (PStr ''ETH''), Some (PStr ''BTC'')] \<and>
   field ''status'' (fst (execute_liquidation example_env example_plan True initial_world) ! 0)
     = Some (PStr ''FAILED'') \<and>
   field ''error'' (fst (execute_liquidation example_env example_plan True initial_world) ! 0)
     = Some (PStr ''No USD trading pair available'')"
proof -
  have p: "[] @ hd example_plan # tl example_plan = example_plan"
    by (simp add: example_plan_def)
  have h: "fst (submit_order example_env (hd example_plan)
                  (snd (execute_liquidation example_env [] True initial_world)))
             = Inl (OtherError ''Invalid product_id'')"
    by (simp add: submit_order_def example_plan_def eth_order_def execute_liquidation_def
        example_order_sizes client_create_order_def example_env_def datetime_now_def)
  have c: "map (\<lambda>t. Some (PStr (currency t))) example_plan = [Some (PStr ''ETH''), Some (PStr ''BTC'')]"
    by (simp add: example_plan_def eth_order_def btc_order_def)
  have l: "length example_plan = 2"
    by (simp add: example_plan_def)
  from live_mode_failure_is_recorded [OF h, of "tl example_plan"] h c l show ?thesis
    unfolding p by simp
qed

section \<open>The plan\<close>

lemma flt_not_fge: "flt x y \<Longrightarrow> \<not> fge x y"
  by (cases x; cases y) auto

lemma fle_trans: "fle x y \<Longrightarrow> fle y z \<Longrightarrow> fle x z"
  by (cases x; cases y; cases z) auto

lemma plan_loop_map_filter:
  "plan_loop t prices (currencies_to_liquidate bs) = List.map_filter (holding_order t prices) bs"
  by (induction bs)
     (auto simp: currencies_to_liquidate_def holding_order_def List.map_filter_simps
        split: option.splits prod.splits)

lemma currencies_to_liquidate_Nil_iff:
  "currencies_to_liquidate bs = [] \<Longrightarrow> List.map_filter (holding_order t prices) bs = []"
  using plan_loop_map_filter [of t prices bs] by simp

lemma calculate_liquidation_plan_eq:
  "calculate_liquidation_plan env t bs w =
     (if currencies_needing_prices (currencies_to_liquidate bs) \<noteq> []
      then (List.map_filter
              (holding_order t
                 (fst (get_current_prices env (currencies_needing_prices (currencies_to_liquidate bs)) w)))
              bs,
            snd (get_current_prices env (currencies_needing_prices (currencies_to_liquidate bs)) w))
      else (List.map_filter (holding_order t Map.empty) bs, w))"
proof (cases "currencies_to_liquidate bs = []")
  case True
  then show ?thesis
    by (simp add: calculate_liquidation_plan_def currencies_needing_prices_def
        currencies_to_liquidate_Nil_iff)
next
  case False
  then show ?thesis
    by (simp add: calculate_liquidation_plan_def Let_def plan_loop_map_filter)
qed

lemma plan_is_map_filter:
  "fst (calculate_liquidation_plan env t bs w)
     = List.map_filter (holding_order t (planning_prices env bs w)) bs"
  by (simp add: calculate_liquidation_plan_eq planning_prices_def Let_def)

lemma plan_world_threshold:
  "snd (calculate_liquidation_plan env t bs w) = snd (calculate_liquidation_plan env t' bs w)"
  by (simp add: calculate_liquidation_plan_eq)

lemma holding_order_currency:
  "holding_order t prices b = Some ord \<Longrightarrow>
   currency ord = currency_code b \<and> currency_code b \<notin> set cash_equivalents \<and>
   fgt (balance b) (Finite 0) \<and> fge (usd_value ord) t \<and> amount ord = balance b \<and>
   account_id ord = holding.account_id b"
  by (auto simp: holding_order_def split: if_splits option.splits prod.splits)

lemma holding_order_threshold:
  "fle t1 t2 \<Longrightarrow>
   holding_order t2 prices b
     = (case holding_order t1 prices b of
          None \<Rightarrow> None
        | Some ord \<Rightarrow> if fge (usd_value ord) t2 then Some ord else None)"
  by (auto simp: holding_order_def dest: fle_trans split: option.splits prod.splits)

lemma map_filter_threshold:
  "fle t1 t2 \<Longrightarrow>
   List.map_filter (holding_order t2 prices) bs
     = [ord \<leftarrow> List.map_filter (holding_order t1 prices) bs. fge (usd_value ord) t2]"
  by (induction bs)
     (auto simp: List.map_filter_simps holding_order_threshold split: option.splits)

lemma currencies_to_liquidate_append:
  "currencies_to_liquidate (xs @ ys) = currencies_to_liquidate xs @ currencies_to_liquidate ys"
  by (simp add: currencies_to_liquidate_def)

lemma needing_prices_drop_valued:
  "holding.usd_value b \<noteq> None \<Longrightarrow>
   currencies_needing_prices (currencies_to_liquidate (pre @ b # post))
     = currencies_needing_prices (currencies_to_liquidate (pre @ post))"
  by (auto simp: currencies_needing_prices_def currencies_to_liquidate_def)

lemma map_filter_drop_None:
  "f b = None \<Longrightarrow> List.map_filter f (pre @ b # post) = List.map_filter f (pre @ post)"
  by (simp add: List.map_filter_def)

lemma plan_drop_unplanned_valued:
  assumes "holding.usd_value b \<noteq> None" and "\<And>prices. holding_order t prices b = None"
  shows "calculate_liquidation_plan env t (pre @ b # post) w
           = calculate_liquidation_plan env t (pre @ post) w"
  by (simp add: calculate_liquidation_plan_eq needing_prices_drop_valued [OF assms(1)]
      map_filter_drop_None assms(2))

lemma example_plan_low_threshold:
  "fst (calculate_liquidation_plan example_env (float_literal (1 / 100)) example_holdings
          initial_world) = [btc_order, doge_order]"
  by code_simp

lemma example_plan_high_threshold:
  "fst (calculate_liquidation_plan example_env (float_literal (1 / 10)) example_holdings
          initial_world) = [btc_order]"
  by code_simp

subsection \<open>Cash-equivalent balances\<close>

text \<open>
  Claim C3: no order of a plan is for USDC or USD, and a balance in one of them
  contributes nothing: without it \<open>calculate_liquidation_plan\<close> returns the same plan
  and makes the same calls.
\<close>

theorem cash_equivalents_never_planned:
  "(\<forall>ord \<in> set (fst (calculate_liquidation_plan env t balances w)).
      currency ord \<notin> set cash_equivalents) \<and>
   (currency_code b \<in> set cash_equivalents \<longrightarrow>
      calculate_liquidation_plan env t (pre @ b # post) w
        = calculate_liquidation_plan env t (pre @ post) w)"
proof (intro conjI ballI impI)
  fix ord
  assume "ord \<in> set (fst (calculate_liquidation_plan env t balances w))"
  then obtain b where "holding_order t (planning_prices env balances w) b = Some ord"
    by (auto simp: plan_is_map_filter List.map_filter_def)
  then show "currency ord \<notin> set cash_equivalents"
    by (auto dest: holding_order_currency)
next
  assume "currency_code b \<in> set cash_equivalents"
  then have "currencies_to_liquidate (pre @ b # post) = currencies_to_liquidate (pre @ post)"
    by (simp add: currencies_to_liquidate_def)
  then show "calculate_liquidation_plan env t (pre @ b # post) w
               = calculate_liquidation_plan env t (pre @ post) w"
    by (simp add: calculate_liquidation_plan_def)
qed

theorem cash_equivalents_never_planned_witness:
  "btc_order \<in> set (fst (calculate_liquidation_plan example_env (float_literal (1 / 10))
                            example_holdings initial_world)) \<and>
   currency btc_order \<notin> set cash_equivalents \<and>
   currency_code usdc_holding \<in> set cash_equivalents \<and>
   calculate_liquidation_plan example_env (float_literal (1 / 10))
       ([btc_holding] @ usdc_holding # [doge_holding]) initial_world
     = calculate_liquidation_plan example_env (float_literal (1 / 10))
         ([btc_holding] @ [doge_holding]) initial_world"
proof -
  have m: "btc_order \<in> set (fst (calculate_liquidation_plan example_env (float_literal (1 / 10))
                                   example_holdings initial_world))"
    by (simp add: example_plan_high_threshold)
  have c: "currency_code usdc_holding \<in> set cash_equivalents"
    by (simp add: usdc_holding_def cash_equivalents_def)
  from cash_equivalents_never_planned
         [of example_env "float_literal (1 / 10)" example_holdings initial_world usdc_holding
             "[btc_holding]" "[doge_holding]"]
       m c
  show ?thesis by blast
qed

subsection \<open>The threshold\<close>

text \<open>
  Claim C5: every order of a plan has a USD value at or above the threshold; a balance
  whose \<open>usd_value\<close> is below the threshold contributes nothing; and for thresholds
  \<open>t1 \<le> t2\<close> the plan for \<open>t2\<close> consists of the orders of the plan for \<open>t1\<close> that
  reach \<open>t2\<close>, so it is a subset of it (the price lookups do not depend on the
  threshold).
\<close>

theorem raising_threshold_shrinks_plan:
  "(\<forall>ord \<in> set (fst (calculate_liquidation_plan env t1 bs w)).
      fge (usd_value ord) t1 \<and> \<not> flt (usd_value ord) t1) \<and>
   (holding.usd_value b = Some u \<and> flt u t1 \<longrightarrow>
      calculate_liquidation_plan env t1 (pre @ b # post) w
        = calculate_liquidation_plan env t1 (pre @ post) w) \<and>
   (fle t1 t2 \<longrightarrow>
      set (fst (calculate_liquidation_plan env t2 bs w))
        \<subseteq> set (fst (calculate_liquidation_plan env t1 bs w)) \<and>
      fst (calculate_liquidation_plan env t2 bs w)
        = [ord \<leftarrow> fst (calculate_liquidation_plan env t1 bs w). fge (usd_value ord) t2] \<and>
      snd (calculate_liquidation_plan env t2 bs w) = snd (calculate_liquidation_plan env t1 bs w))"
proof (intro conjI ballI impI)
  fix ord
  assume "ord \<in> set (fst (calculate_liquidation_plan env t1 bs w))"
  then obtain b where "holding_order t1 (planning_prices env bs w) b = Some ord"
    by (auto simp: plan_is_map_filter List.map_filter_def)
  then show ge: "fge (usd_value ord) t1"
    by (auto dest: holding_order_currency)
  then show "\<not> flt (usd_value ord) t1"
    using flt_not_fge by blast
next
  assume b: "holding.usd_value b = Some u \<and> flt u t1"
  then have "holding_order t1 prices b = None" for prices
    by (auto simp: holding_order_def valuation_def dest: flt_not_fge split: option.splits)
  with b show "calculate_liquidation_plan env t1 (pre @ b # post) w
                 = calculate_liquidation_plan env t1 (pre @ post) w"
    by (intro plan_drop_unplanned_valued) simp_all
next
  assume le: "fle t1 t2"
  have pp: "planning_prices env bs w = planning_prices env bs w" ..
  show eq: "fst (calculate_liquidation_plan env t2 bs w)
          = [ord \<leftarrow> fst (calculate_liquidation_plan env t1 bs w). fge (usd_value ord) t2]"
    by (simp add: plan_is_map_filter map_filter_threshold [OF le])
  show "set (fst (calculate_liquidation_plan env t2 bs w))
          \<subseteq> set (fst (calculate_liquidation_plan env t1 bs w))"
    unfolding eq by auto
  show "snd (calculate_liquidation_plan env t2 bs w) = snd (calculate_liquidation_plan env t1 bs w)"
    by (rule plan_world_threshold)
qed

lemma example_float_comparisons:
  "fle (float_literal (1 / 100)) (float_literal (1 / 10))"
  "flt (float_literal (8 / 100)) (float_literal (1 / 10))"
  "fge (float_literal 650) (float_literal (1 / 100))"
  "fge (float_literal 650) (float_literal (1 / 10))"
  "fge (float_literal 500) (float_literal (1 / 10))"
  "fgt (float_literal 500) (Finite 0)"
  "fgt (float_literal (1 / 100)) (Finite 0)"
  by code_simp+

theorem raising_threshold_shrinks_plan_witness:
  "fle (float_literal (1 / 100)) (float_literal (1 / 10)) \<and>
   fst (calculate_liquidation_plan example_env (float_literal (1 / 100)) example_holdings
          initial_world) = [btc_order, doge_order] \<and>
   fst (calculate_liquidation_plan example_env (float_literal (1 / 10)) example_holdings
          initial_world) = [btc_order] \<and>
   set (fst (calculate_liquidation_plan example_env (float_literal (1 / 10)) example_holdings
               initial_world))
     \<subseteq> set (fst (calculate_liquidation_plan example_env (float_literal (1 / 100))
                       example_holdings initial_world)) \<and>
   fge (usd_value btc_order) (float_literal (1 / 100)) \<and>
   holding.usd_value doge_holding = Some (float_literal (8 / 100)) \<and>
   flt (float_literal (8 / 100)) (float_literal (1 / 10)) \<and>
   calculate_liquidation_plan example_env (float_literal (1 / 10))
       ([btc_holding, usdc_holding] @ doge_holding # []) initial_world
     = calculate_liquidation_plan example_env (float_literal (1 / 10))
         ([btc_holding, usdc_holding] @ []) initial_world"
proof -
  have le: "fle (float_literal (1 / 100)) (float_literal (1 / 10))"
    by (rule example_float_comparisons)
  have lt: "holding.usd_value doge_holding = Some (float_literal (8 / 100)) \<and>
            flt (float_literal (8 / 100)) (float_literal (1 / 10))"
    by code_simp
  have m: "btc_order \<in> set (fst (calculate_liquidation_plan example_env (float_literal (1 / 100))
                                   example_holdings initial_world))"
    by (simp add: example_plan_low_threshold)
  from raising_threshold_shrinks_plan
         [of example_env "float_literal (1 / 100)" example_holdings initial_world _ _ _ _
             "float_literal (1 / 10)"]
       le m
  have a: "set (fst (calculate_liquidation_plan example_env (float_literal (1 / 10))
                       example_holdings initial_world))
             \<subseteq> set (fst (calculate_liquidation_plan example_env (float_literal (1 / 100))
                               example_holdings initial_world)) \<and>
           fge (usd_value btc_order) (float_literal (1 / 100))"
    by blast
  from raising_threshold_shrinks_plan
         [of example_env "float_literal (1 / 10)" _ initial_world doge_holding
             "float_literal (8 / 100)" "[btc_holding, usdc_holding]" "[]"]
       lt
  have b: "calculate_liquidation_plan example_env (float_literal (1 / 10))
               ([btc_holding, usdc_holding] @ doge_holding # []) initial_world
             = calculate_liquidation_plan example_env (float_literal (1 / 10))
                 ([btc_holding, usdc_holding] @ []) initial_world"
    by blast
  from a b le lt show ?thesis
    by (simp add: example_plan_low_threshold example_plan_high_threshold)
qed

subsection \<open>One order and one result per qualifying holding\<close>

text \<open>
  Cash-equivalent assets never enter the plan, whatever their quantity and value: the
  USDC holding of the specification's scenario is worth 500 USD, above the threshold
  of 0.10 USD, and yields no order.
\<close>

lemma cash_holding_above_threshold_is_not_planned:
  "fgt (balance usdc_holding) (Finite 0) \<and>
   holding.usd_value usdc_holding = Some (float_literal 500) \<and>
   fge (float_literal 500) (float_literal (1 / 10)) \<and>
   fst (calculate_liquidation_plan example_env (float_literal (1 / 10)) [usdc_holding]
          initial_world) = []"
  by code_simp

text \<open>
  Claim C4: the plan is, in the order of the balances, what each balance contributes
  (\<open>holding_order\<close>: no order or one); a holding that is not cash-equivalent (those
  never enter the plan), with a positive quantity and a \<open>usd_value\<close> at or above the
  threshold, contributes exactly one order, with its currency, quantity, USD value and
  account; and in live and in trial mode \<open>execute_liquidation\<close> returns one result per
  order of the plan, in its order.
\<close>

theorem qualifying_holding_one_order_one_result:
  "fst (calculate_liquidation_plan env t bs w)
     = List.map_filter (holding_order t (planning_prices env bs w)) bs \<and>
   (currency_code b \<notin> set cash_equivalents \<and> fgt (balance b) (Finite 0) \<and>
    holding.usd_value b = Some u \<and> fge u t \<longrightarrow>
      (\<exists>ppu. holding_order t prices b
                = Some \<lparr>currency = currency_code b, amount = balance b, price_per_unit = ppu,
                        usd_value = u, account_id = holding.account_id b\<rparr>)) \<and>
   length (fst (execute_liquidation env plan live w')) = length plan \<and>
   map (field ''currency'') (fst (execute_liquidation env plan live w'))
     = map (\<lambda>ord. Some (PStr (currency ord))) plan"
  by (auto simp: plan_is_map_filter holding_order_def valuation_def execute_liquidation_loop
      execute_loop_length execute_loop_currencies split: option.splits)

theorem qualifying_holding_one_order_one_result_witness:
  "currency_code btc_holding \<notin> set cash_equivalents \<and>
   fgt (balance btc_holding) (Finite 0) \<and>
   holding.usd_value btc_holding = Some (float_literal 650) \<and>
   fge (float_literal 650) (float_literal (1 / 10)) \<and>
   (\<exists>ppu. holding_order (float_literal (1 / 10)) Map.empty btc_holding
            = Some \<lparr>currency = ''BTC'', amount = float_literal (1 / 100), price_per_unit = ppu,
                    usd_value = float_literal 650, account_id = ''acct-btc''\<rparr>) \<and>
   fst (calculate_liquidation_plan example_env (float_literal (1 / 10)) example_holdings
          initial_world) = [btc_order] \<and>
   length (fst (execute_liquidation example_env [btc_order] True initial_world)) = 1 \<and>
   length (fst (execute_liquidation example_env [btc_order] False initial_world)) = 1"
proof -
  have h: "currency_code btc_holding \<notin> set cash_equivalents \<and>
           fgt (balance btc_holding) (Finite 0) \<and>
           holding.usd_value btc_holding = Some (float_literal 650) \<and>
           fge (float_literal 650) (float_literal (1 / 10))"
    by code_simp
  note live = qualifying_holding_one_order_one_result
         [of example_env "float_literal (1 / 10)" example_holdings initial_world btc_holding
             "float_literal 650" Map.empty "[btc_order]" True initial_world]
  note trial = qualifying_holding_one_order_one_result
         [of example_env "float_literal (1 / 10)" example_holdings initial_world btc_holding
             "float_literal 650" Map.empty "[btc_order]" False initial_world]
  from live h
  have "\<exists>ppu. holding_order (float_literal (1 / 10)) Map.empty btc_holding
                = Some \<lparr>currency = currency_code btc_holding, amount = balance btc_holding,
                        price_per_unit = ppu, usd_value = float_literal 650,
                        account_id = holding.account_id btc_holding\<rparr>"
    by blast
  then have ex: "\<exists>ppu. holding_order (float_literal (1 / 10)) Map.empty btc_holding
                = Some \<lparr>currency = ''BTC'', amount = float_literal (1 / 100),
                        price_per_unit = ppu, usd_value = float_literal 650,
                        account_id = ''acct-btc''\<rparr>"
    by (simp add: btc_holding_def)
  from live have l1: "length (fst (execute_liquidation example_env [btc_order] True initial_world)) = 1"
    by simp
  from trial have l2: "length (fst (execute_liquidation example_env [btc_order] False initial_world)) = 1"
    by simp
  from h ex l1 l2 example_plan_high_threshold show ?thesis
    by blast
qed

section \<open>Price lookup under a rate limit\<close>

lemma client_get_product_simps [simp]:
  "fst (client_get_product env pid w) = get_product env (history w) pid"
  "snd (client_get_product env pid w) = log_event (GetProduct pid) w"
  by (simp_all add: client_get_product_def)

lemma history_time_sleep [simp]: "history (time_sleep d w) = history w @ [Sleep d]"
  by (simp add: time_sleep_def)

lemma files_time_sleep [simp]: "files (time_sleep d w) = files w"
  by (simp add: time_sleep_def)

lemma lookup_price_returns:
  "get_product env (history w) (cur @ ''-USD'') = Returns p \<Longrightarrow>
   lookup_price env cur (prices, w)
     = (prices(cur \<mapsto> p),
        w\<lparr>history := history w @ [GetProduct (cur @ ''-USD''), Sleep (1 / 10)]\<rparr>)"
  by (simp add: lookup_price_def Let_def client_get_product_def time_sleep_def log_event_def)

lemma lookup_price_rate_limited:
  "get_product env (history w) (cur @ ''-USD'') = Raises (HTTPError 429 m) \<Longrightarrow>
   lookup_price env cur (prices, w)
     = (case get_product env (history w @ [GetProduct (cur @ ''-USD''), Sleep 2]) (cur @ ''-USD'') of
          Returns p \<Rightarrow> prices(cur \<mapsto> p)
        | Raises e \<Rightarrow> prices,
        w\<lparr>history := history w @ [GetProduct (cur @ ''-USD''), Sleep 2, GetProduct (cur @ ''-USD'')]\<rparr>)"
  by (simp add: lookup_price_def Let_def client_get_product_def time_sleep_def log_event_def
      split: response.splits)

lemma lookup_price_other:
  "c \<noteq> cur \<Longrightarrow> fst (lookup_price env c (prices, w)) cur = prices cur"
  by (simp add: lookup_price_def Let_def client_get_product_def
      split: response.splits py_error.splits)

lemma get_current_prices_loop_other:
  "cur \<notin> set cs \<Longrightarrow> fst (get_current_prices_loop env cs (prices, w)) cur = prices cur"
proof (induction cs arbitrary: prices w)
  case Nil
  then show ?case by simp
next
  case (Cons c cs)
  obtain prices1 w1 where s: "lookup_price env c (prices, w) = (prices1, w1)"
    by (cases "lookup_price env c (prices, w)")
  from Cons.prems have "c \<noteq> cur" and "cur \<notin> set cs" by auto
  with Cons.IH [of prices1 w1] lookup_price_other [of c cur env prices w] s
  show ?case by simp
qed

lemma get_current_prices_loop_append:
  "get_current_prices_loop env (xs @ ys) pw
     = get_current_prices_loop env ys (get_current_prices_loop env xs pw)"
  by (induction xs arbitrary: pw) simp_all

lemma get_current_prices_other:
  "cur \<notin> set cs \<Longrightarrow> fst (get_current_prices env cs w) cur = None"
  by (simp add: get_current_prices_def get_current_prices_loop_other)

text \<open>
  Claim C9: when the lookup of a currency in \<open>get_current_prices\<close> is answered with
  HTTP 429, wherever the currency stands in the list, the script sleeps 2 seconds
  (an answered lookup is followed by a sleep of 0.1 seconds) and asks once more, and
  then goes on with the rest of the list whatever the second answer is.  If the
  second answer is an exception the lookup adds no price, so a currency that occurs
  only there has no entry in the price map; if it is a price, that price is recorded.
\<close>

theorem rate_limited_lookup_retries_once:
  assumes "get_product env (history (snd (get_current_prices env pre w))) (cur @ ''-USD'')
             = Raises (HTTPError 429 m)"
  shows "get_current_prices env (pre @ cur # rest) w
           = get_current_prices_loop env rest
               (case get_product env
                       (history (snd (get_current_prices env pre w))
                          @ [GetProduct (cur @ ''-USD''), Sleep 2]) (cur @ ''-USD'') of
                  Returns p \<Rightarrow> (fst (get_current_prices env pre w))(cur \<mapsto> p)
                | Raises e \<Rightarrow> fst (get_current_prices env pre w),
                (snd (get_current_prices env pre w))
                  \<lparr>history := history (snd (get_current_prices env pre w))
                     @ [GetProduct (cur @ ''-USD''), Sleep 2, GetProduct (cur @ ''-USD'')]\<rparr>) \<and>
         (get_product env
            (history (snd (get_current_prices env pre w)) @ [GetProduct (cur @ ''-USD''), Sleep 2])
            (cur @ ''-USD'') = Raises e \<and> cur \<notin> set pre \<and> cur \<notin> set rest \<longrightarrow>
          fst (get_current_prices env (pre @ cur # rest) w) cur = None) \<and>
         (get_product env
            (history (snd (get_current_prices env pre w)) @ [GetProduct (cur @ ''-USD''), Sleep 2])
            (cur @ ''-USD'') = Returns p \<and> cur \<notin> set rest \<longrightarrow>
          fst (get_current_prices env (pre @ cur # rest) w) cur = Some p) \<and>
         (get_product env (history w0) (cur @ ''-USD'') = Returns p0 \<longrightarrow>
          history (snd (lookup_price env cur (prices0, w0)))
            = history w0 @ [GetProduct (cur @ ''-USD''), Sleep (1 / 10)])"
proof -
  let ?pw = "get_current_prices env pre w"
  let ?pid = "cur @ ''-USD''"
  let ?retry = "get_product env (history (snd ?pw) @ [GetProduct ?pid, Sleep 2]) ?pid"
  let ?w2 = "(snd ?pw)\<lparr>history := history (snd ?pw) @ [GetProduct ?pid, Sleep 2, GetProduct ?pid]\<rparr>"
  have step: "lookup_price env cur ?pw
                = (case ?retry of Returns p \<Rightarrow> (fst ?pw)(cur \<mapsto> p) | Raises e \<Rightarrow> fst ?pw, ?w2)"
    using lookup_price_rate_limited [OF assms, of "fst ?pw"] by simp
  have whole: "get_current_prices env (pre @ cur # rest) w
                 = get_current_prices_loop env rest (lookup_price env cur ?pw)"
    by (simp add: get_current_prices_def get_current_prices_loop_append)
  have c1: "get_current_prices env (pre @ cur # rest) w
              = get_current_prices_loop env rest
                  (case ?retry of Returns p \<Rightarrow> (fst ?pw)(cur \<mapsto> p) | Raises e \<Rightarrow> fst ?pw, ?w2)"
    by (simp only: whole step)
  have c2: "fst (get_current_prices env (pre @ cur # rest) w) cur = None"
    if "?retry = Raises e" "cur \<notin> set pre" "cur \<notin> set rest"
    using that by (simp add: c1 get_current_prices_loop_other get_current_prices_other)
  have c3: "fst (get_current_prices env (pre @ cur # rest) w) cur = Some p"
    if "?retry = Returns p" "cur \<notin> set rest"
    using that by (simp add: c1 get_current_prices_loop_other)
  have c4: "history (snd (lookup_price env cur (prices0, w0)))
              = history w0 @ [GetProduct ?pid, Sleep (1 / 10)]"
    if "get_product env (history w0) ?pid = Returns p0"
    using lookup_price_returns [OF that] by simp
  from c1 c2 c3 c4 show ?thesis by blast
qed

text \<open>
  At the example brokerage every first lookup is rate limited; the retry succeeds for
  ETH and fails for BTC and DOGE.
\<close>

theorem rate_limited_lookup_retries_once_witness:
  "get_product example_env
     (history (snd (get_current_prices example_env [''ETH''] initial_world))) ''BTC-USD''
     = Raises (HTTPError 429 ''Too Many Requests'') \<and>
   get_product example_env
     (history (snd (get_current_prices example_env [''ETH''] initial_world))
        @ [GetProduct ''BTC-USD'', Sleep 2]) ''BTC-USD''
     = Raises (HTTPError 429 ''Too Many Requests'') \<and>
   fst (get_current_prices example_env [''ETH'', ''BTC'', ''DOGE''] initial_world) ''BTC'' = None \<and>
   get_product example_env (history initial_world) ''ETH-USD''
     = Raises (HTTPError 429 ''Too Many Requests'') \<and>
   get_product example_env (history initial_world @ [GetProduct ''ETH-USD'', Sleep 2]) ''ETH-USD''
     = Returns (float_literal 2000) \<and>
   fst (get_current_prices example_env [''ETH'', ''BTC'', ''DOGE''] initial_world) ''ETH''
     = Some (float_literal 2000) \<and>
   history (snd (get_current_prices example_env [''ETH'', ''BTC'', ''DOGE''] initial_world))
     = [GetProduct ''ETH-USD'', Sleep 2, GetProduct ''ETH-USD'',
        GetProduct ''BTC-USD'', Sleep 2, GetProduct ''BTC-USD'',
        GetProduct ''DOGE-USD'', Sleep 2, GetProduct ''DOGE-USD'']"
proof -
  have h1: "get_product example_env
              (history (snd (get_current_prices example_env [''ETH''] initial_world)))
              (''BTC'' @ ''-USD'') = Raises (HTTPError 429 ''Too Many Requests'')"
    by code_simp
  have r1: "get_product example_env
              (history (snd (get_current_prices example_env [''ETH''] initial_world))
                 @ [GetProduct (''BTC'' @ ''-USD''), Sleep 2]) (''BTC'' @ ''-USD'')
              = Raises (HTTPError 429 ''Too Many Requests'')"
    by code_simp
  have h2: "get_product example_env (history (snd (get_current_prices example_env [] initial_world)))
              (''ETH'' @ ''-USD'') = Raises (HTTPError 429 ''Too Many Requests'')"
    by code_simp
  have r2: "get_product example_env
              (history (snd (get_current_prices example_env [] initial_world))
                 @ [GetProduct (''ETH'' @ ''-USD''), Sleep 2]) (''ETH'' @ ''-USD'')
              = Returns (float_literal 2000)"
    by code_simp
  have n1: "''BTC'' \<notin> set [''ETH''] \<and> ''BTC'' \<notin> set [''DOGE'']"
    by simp
  have n2: "''ETH'' \<notin> set [''BTC'', ''DOGE'']"
    by simp
  have i: "history (snd (get_current_prices example_env [] initial_world)) = history initial_world"
    by (simp add: get_current_prices_def)
  have hist: "history (snd (get_current_prices example_env [''ETH'', ''BTC'', ''DOGE''] initial_world))
     = [GetProduct ''ETH-USD'', Sleep 2, GetProduct ''ETH-USD'',
        GetProduct ''BTC-USD'', Sleep 2, GetProduct ''BTC-USD'',
        GetProduct ''DOGE-USD'', Sleep 2, GetProduct ''DOGE-USD'']"
    by code_simp
  from rate_limited_lookup_retries_once
         [OF h1, where rest = "[''DOGE'']" and e = "HTTPError 429 ''Too Many Requests''"] r1
       n1
  have btc: "fst (get_current_prices example_env ([''ETH''] @ ''BTC'' # [''DOGE'']) initial_world)
               ''BTC'' = None"
    by blast
  from rate_limited_lookup_retries_once
         [OF h2, where rest = "[''BTC'', ''DOGE'']" and p = "float_literal 2000"] r2
       n2
  have eth: "fst (get_current_prices example_env ([] @ ''ETH'' # [''BTC'', ''DOGE'']) initial_world)
               ''ETH'' = Some (float_literal 2000)"
    by blast
  from h1 r1 h2 r2 btc eth hist show ?thesis
    by (simp add: i)
qed

section \<open>The rows of the report\<close>

lemma map_of_snoc:
  "map_of (tr @ [(f, v)]) k = (case map_of tr k of Some u \<Rightarrow> Some u | None \<Rightarrow> if k = f then Some v else None)"
  by (simp add: map_add_def split: option.splits)

lemma map_of_fill_missing:
  "map_of (fill_missing fs tr) k
     = (case map_of tr k of Some v \<Rightarrow> Some v | None \<Rightarrow> if k \<in> set fs then Some PNone else None)"
  by (induction fs arbitrary: tr) (auto simp: map_of_snoc split: option.splits)

lemma keys_fill_missing: "set (map fst (fill_missing fs tr)) \<subseteq> set (map fst tr) \<union> set fs"
proof (induction fs arbitrary: tr)
  case Nil
  then show ?case by simp
next
  case (Cons f fs)
  let ?tr = "if map_of tr f = None then tr @ [(f, PNone)] else tr"
  have "set (map fst (fill_missing fs ?tr)) \<subseteq> set (map fst ?tr) \<union> set fs"
    by (rule Cons.IH)
  moreover have "set (map fst ?tr) \<subseteq> set (map fst tr) \<union> {f}"
    by auto
  ultimately have "set (map fst (fill_missing fs ?tr)) \<subseteq> set (map fst tr) \<union> set (f # fs)"
    by (simp only: set_simps) blast
  then show ?case
    by (simp only: fill_missing.simps)
qed

lemma writerow_filled:
  assumes "set (map fst tr) \<subseteq> set fieldnames"
  shows "writerow env (fill_missing fieldnames tr) = Inr (map (csv_cell env tr) fieldnames)"
proof -
  have "[k \<leftarrow> map fst (fill_missing fieldnames tr). k \<notin> set fieldnames] = []"
    using keys_fill_missing [of fieldnames tr] assms by (auto simp: filter_empty_conv)
  moreover have "(case map_of (fill_missing fieldnames tr) f of None \<Rightarrow> [] | Some v \<Rightarrow> csv_field env v)
                   = csv_cell env tr f" if "f \<in> set fieldnames" for f
    using that by (simp add: map_of_fill_missing csv_cell_def field_def csv_field_def split: option.splits)
  ultimately show ?thesis
    by (simp add: writerow_def Let_def)
qed

lemma write_trades_rows:
  "\<forall>tr \<in> set trs. set (map fst tr) \<subseteq> set fieldnames \<Longrightarrow>
   write_trades env trs rows = (None, rows @ map (\<lambda>tr. map (csv_cell env tr) fieldnames) trs)"
  by (induction trs arbitrary: rows) (simp_all add: writerow_filled)

lemma any_trial_total:
  "\<forall>tr \<in> set trs. map_of tr ''status'' \<noteq> None \<Longrightarrow> \<exists>b. any_trial trs = Inr b"
  by (induction trs) auto

lemma is_execution_result_keys:
  "is_execution_result tr \<Longrightarrow> set (map fst tr) \<subseteq> set fieldnames \<and> map_of tr ''status'' \<noteq> None"
  by (auto simp: is_execution_result_def fieldnames_def map_of_eq_None_iff)

lemma report_filename_total:
  "\<forall>tr \<in> set trs. is_execution_result tr \<Longrightarrow>
   \<exists>name. fst (report_filename env trs filename w) = Inr name"
proof -
  assume "\<forall>tr \<in> set trs. is_execution_result tr"
  then have "\<forall>tr \<in> set trs. map_of tr ''status'' \<noteq> None"
    using is_execution_result_keys by blast
  then obtain b where "any_trial trs = Inr b"
    using any_trial_total by blast
  then show ?thesis
    by (simp add: report_filename_def datetime_now_def)
qed

lemma files_report_filename [simp]: "files (snd (report_filename env trs filename w)) = files w"
  by (simp add: report_filename_def datetime_now_def split: sum.splits)

text \<open>
  Claim C8: for a non-empty list of execution results \<open>generate_csv_report\<close> writes the
  header and then one row per result, in order; every row has the seven columns
  \<open>currency\<close>, \<open>amount\<close>, \<open>usd_value\<close>, \<open>order_id\<close>, \<open>status\<close>, \<open>timestamp\<close>, \<open>error\<close>,
  and the column of a key that the result lacks, or whose value is \<open>None\<close>, is the
  empty string.
\<close>

theorem report_rows_have_seven_columns:
  assumes "trades \<noteq> []" and "\<forall>tr \<in> set trades. is_execution_result tr"
  shows "\<exists>name rows.
           fst (generate_csv_report env trades filename w) = Inr name \<and>
           files (snd (generate_csv_report env trades filename w)) = (files w)(name \<mapsto> rows) \<and>
           rows = fieldnames # map (\<lambda>tr. map (csv_cell env tr) fieldnames) trades \<and>
           (\<forall>row \<in> set rows. length row = 7) \<and>
           (\<forall>tr f. field f tr = None \<or> field f tr = Some PNone \<longrightarrow> csv_cell env tr f = [])"
proof -
  from report_filename_total [OF assms(2)]
  obtain name where n: "fst (report_filename env trades filename w) = Inr name"
    by blast
  have keys: "\<forall>tr \<in> set trades. set (map fst tr) \<subseteq> set fieldnames"
    using assms(2) is_execution_result_keys by blast
  let ?rows = "fieldnames # map (\<lambda>tr. map (csv_cell env tr) fieldnames) trades"
  have g: "generate_csv_report env trades filename w
             = (Inr name, (snd (report_filename env trades filename w))
                            \<lparr>files := (files (snd (report_filename env trades filename w)))
                                        (name \<mapsto> ?rows)\<rparr>)"
    using n assms(1)
    by (cases "report_filename env trades filename w")
       (simp add: generate_csv_report_def write_trades_rows [OF keys])
  have seven: "\<forall>row \<in> set ?rows. length row = 7"
    by (auto simp: fieldnames_def)
  have empty: "\<forall>tr f. field f tr = None \<or> field f tr = Some PNone \<longrightarrow> csv_cell env tr f = []"
    by (auto simp: csv_cell_def csv_field_def)
  from g seven empty show ?thesis
    by simp
qed

text \<open>The results that \<open>execute_liquidation\<close> builds are such execution results.\<close>

lemma execute_trade_wellformed: "is_execution_result (fst (execute_trade env live t w))"
proof (cases live)
  case False
  then show ?thesis
    by (simp add: execute_trade_trial is_execution_result_def fieldnames_def)
next
  case True
  show ?thesis
  proof (cases "submit_order env t w")
    case (Pair r w1)
    show ?thesis
    proof (cases r)
      case (Inl e)
      with Pair True show ?thesis
        by (simp add: execute_trade_def failed_trade_def datetime_now_def is_execution_result_def
            fieldnames_def)
    next
      case (Inr oc)
      with Pair True show ?thesis
        by (simp add: execute_trade_def datetime_now_def is_execution_result_def fieldnames_def
            split: prod.splits)
    qed
  qed
qed

lemma execute_loop_wellformed:
  "\<forall>r \<in> set (fst (execute_loop env live plan w)). is_execution_result r"
  by (induction plan arbitrary: w) (simp_all add: execute_loop_Cons execute_trade_wellformed)

lemma execute_liquidation_wellformed:
  "\<forall>r \<in> set (fst (execute_liquidation env plan live w)). is_execution_result r"
  by (simp add: execute_liquidation_loop execute_loop_wellformed)

theorem report_rows_have_seven_columns_witness:
  "example_trades \<noteq> [] \<and>
   list_all is_execution_result example_trades \<and>
   fst (generate_csv_report example_env example_trades None initial_world)
     = Inr ''coinbase_liquidation_report_live_20231114_221320.csv'' \<and>
   files (snd (generate_csv_report example_env example_trades None initial_world))
       ''coinbase_liquidation_report_live_20231114_221320.csv''
     = Some [[''currency'', ''amount'', ''usd_value'', ''order_id'', ''status'', ''timestamp'',
              ''error''],
             [''ETH'', ''1.5'', ''3000.0'', [], ''FAILED'', ''2023-11-14T22:13:20'',
              ''No USD trading pair available''],
             [''BTC'', ''0.01'', ''650.0'', ''order-1'', ''EXECUTED'', ''2023-11-14T22:13:20'',
              []]]"
proof -
  have ne: "example_trades \<noteq> []"
    by code_simp
  have wf: "\<forall>tr \<in> set example_trades. is_execution_result tr"
    unfolding example_trades_def by (rule execute_liquidation_wellformed)
  have nm: "fst (generate_csv_report example_env example_trades None initial_world)
              = Inr ''coinbase_liquidation_report_live_20231114_221320.csv''"
    by code_simp
  have rs: "fieldnames # map (\<lambda>tr. map (csv_cell example_env tr) fieldnames) example_trades
              = [[''currency'', ''amount'', ''usd_value'', ''order_id'', ''status'', ''timestamp'',
                  ''error''],
                 [''ETH'', ''1.5'', ''3000.0'', [], ''FAILED'', ''2023-11-14T22:13:20'',
                  ''No USD trading pair available''],
                 [''BTC'', ''0.01'', ''650.0'', ''order-1'', ''EXECUTED'', ''2023-11-14T22:13:20'',
                  []]]"
    by code_simp
  from report_rows_have_seven_columns [OF ne wf, of example_env None initial_world]
  obtain name rows where
    a: "fst (generate_csv_report example_env example_trades None initial_world) = Inr name"
    and b: "files (snd (generate_csv_report example_env example_trades None initial_world))
              = (files initial_world)(name \<mapsto> rows)"
    and c: "rows = fieldnames # map (\<lambda>tr. map (csv_cell example_env tr) fieldnames) example_trades"
    by blast
  from a nm have "name = ''coinbase_liquidation_report_live_20231114_221320.csv''"
    by simp
  with b c rs
  have "files (snd (generate_csv_report example_env example_trades None initial_world))
          ''coinbase_liquidation_report_live_20231114_221320.csv''
        = Some [[''currency'', ''amount'', ''usd_value'', ''order_id'', ''status'', ''timestamp'',
              ''error''],
             [''ETH'', ''1.5'', ''3000.0'', [], ''FAILED'', ''2023-11-14T22:13:20'',
              ''No USD trading pair available''],
             [''BTC'', ''0.01'', ''650.0'', ''order-1'', ''EXECUTED'', ''2023-11-14T22:13:20'',
              []]]"
    by simp
  with ne wf nm show ?thesis
    by (simp add: list_all_iff)
qed

section \<open>Cancelling at the confirmation prompt\<close>

lemma get_portfolio_balances_quiet:
  "submitted_orders (history (snd (get_portfolio_balances env t w))) = submitted_orders (history w) \<and>
   files (snd (get_portfolio_balances env t w)) = files w"
  by (simp add: get_portfolio_balances_def client_get_portfolios_def
      client_get_portfolio_breakdown_def submitted_orders_append
      split: response.splits list.splits)

lemma lookup_price_quiet:
  "submitted_orders (history (snd (lookup_price env c pw))) = submitted_orders (history (snd pw)) \<and>
   files (snd (lookup_price env c pw)) = files (snd pw)"
  by (simp add: lookup_price_def Let_def client_get_product_def time_sleep_def
      submitted_orders_append split: response.splits py_error.splits)

lemma get_current_prices_loop_quiet:
  "submitted_orders (history (snd (get_current_prices_loop env cs pw)))
     = submitted_orders (history (snd pw)) \<and>
   files (snd (get_current_prices_loop env cs pw)) = files (snd pw)"
  by (induction cs arbitrary: pw) (simp_all add: lookup_price_quiet)

lemma calculate_liquidation_plan_quiet:
  "submitted_orders (history (snd (calculate_liquidation_plan env t bs w)))
     = submitted_orders (history w) \<and>
   files (snd (calculate_liquidation_plan env t bs w)) = files w"
  by (simp add: calculate_liquidation_plan_def Let_def get_current_prices_def
      get_current_prices_loop_quiet)

lemma planning_quiet:
  "submitted_orders (history (snd (planning env t w))) = submitted_orders (history w) \<and>
   files (snd (planning env t w)) = files w"
  by (simp add: planning_def calculate_liquidation_plan_quiet get_portfolio_balances_quiet
      split: prod.splits)
     (metis calculate_liquidation_plan_quiet get_portfolio_balances_quiet snd_conv)

lemma main_exit_status:
  "fst (main env path t live w)
     = (if fst (run_liquidation env path t live w) = Inr True then 0 else 1) \<and>
   snd (main env path t live w) = snd (run_liquidation env path t live w)"
  by (auto simp: main_def split: prod.splits sum.splits)

text \<open>
  Claim C7 says that a cancelled run is a normal return and that the process exits
  with status 0.  At the example brokerage the user types \<open>no\<close> at the prompt; the exit
  status is 1.
\<close>

theorem cancelled_live_run_exit_status_is_1:
  "input example_env [GetPortfolios, GetPortfolioBreakdown ''portfolio-1'']
     ''Type 'CONFIRM' to proceed: '' = Returns ''no'' \<and>
   history (snd (main example_env ''cdp_api_key.json'' (float_literal (1 / 100)) True initial_world))
     = [GetPortfolios, GetPortfolioBreakdown ''portfolio-1'',
        Input ''Type 'CONFIRM' to proceed: ''] \<and>
   fst (main example_env ''cdp_api_key.json'' (float_literal (1 / 100)) True initial_world) = 1"
  by code_simp

text \<open>
  Claim C7 as amended: when a live run reaches the prompt (the credentials load, there
  are balances and the plan is not empty) and the user enters anything other than
  \<open>CONFIRM\<close>, \<open>run_liquidation\<close> returns \<open>False\<close> right after the prompt, no order is
  submitted and no file is written, and \<open>main\<close> exits with status 1, as it does for
  a failure to load the credentials.
\<close>

theorem cancelled_live_run_submits_nothing_and_fails:
  assumes "load_credentials env path"
    and "fst (get_portfolio_balances env t w) \<noteq> []"
    and "fst (planning env t w) \<noteq> []"
    and "input env (history (snd (planning env t w))) ''Type 'CONFIRM' to proceed: '' = Returns s"
    and "s \<noteq> ''CONFIRM''"
  shows "run_liquidation env path t True w
           = (Inr False, log_event (Input ''Type 'CONFIRM' to proceed: '') (snd (planning env t w))) \<and>
         fst (main env path t True w) = 1 \<and>
         snd (main env path t True w) = snd (run_liquidation env path t True w) \<and>
         submitted_orders (history (snd (main env path t True w))) = submitted_orders (history w) \<and>
         files (snd (main env path t True w)) = files w"
proof -
  obtain bs w1 where b: "get_portfolio_balances env t w = (bs, w1)"
    by (cases "get_portfolio_balances env t w")
  obtain plan w2 where p: "calculate_liquidation_plan env t bs w1 = (plan, w2)"
    by (cases "calculate_liquidation_plan env t bs w1")
  have pl: "planning env t w = (plan, w2)"
    by (simp add: planning_def b p)
  from assms b pl have ne: "bs \<noteq> []" "plan \<noteq> []"
    and inp: "input env (history w2) ''Type 'CONFIRM' to proceed: '' = Returns s"
    by simp_all
  have run: "run_liquidation env path t True w
               = (Inr False, log_event (Input ''Type 'CONFIRM' to proceed: '') w2)"
    using assms(1,5) ne inp
    by (simp add: run_liquidation_def b p py_input_def)
  have q: "submitted_orders (history w2) = submitted_orders (history w) \<and> files w2 = files w"
    using planning_quiet [of env t w] pl by simp
  from run q pl show ?thesis
    by (simp add: main_exit_status submitted_orders_append)
qed

theorem cancelled_live_run_submits_nothing_and_fails_witness:
  "load_credentials example_env ''cdp_api_key.json'' \<and>
   fst (get_portfolio_balances example_env (float_literal (1 / 100)) initial_world) \<noteq> [] \<and>
   fst (planning example_env (float_literal (1 / 100)) initial_world) \<noteq> [] \<and>
   input example_env (history (snd (planning example_env (float_literal (1 / 100)) initial_world)))
     ''Type 'CONFIRM' to proceed: '' = Returns ''no'' \<and>
   ''no'' \<noteq> ''CONFIRM'' \<and>
   fst (run_liquidation example_env ''cdp_api_key.json'' (float_literal (1 / 100)) True initial_world)
     = Inr False \<and>
   fst (main example_env ''cdp_api_key.json'' (float_literal (1 / 100)) True initial_world) = 1 \<and>
   submitted_orders
     (history (snd (main example_env ''cdp_api_key.json'' (float_literal (1 / 100)) True
                      initial_world))) = [] \<and>
   files (snd (main example_env ''cdp_api_key.json'' (float_literal (1 / 100)) True initial_world))
     = Map.empty"
proof -
  have h1: "load_credentials example_env ''cdp_api_key.json''"
    by (simp add: example_env_def)
  have h2: "fst (get_portfolio_balances example_env (float_literal (1 / 100)) initial_world) \<noteq> []"
    by code_simp
  have h3: "fst (planning example_env (float_literal (1 / 100)) initial_world) \<noteq> []"
    by code_simp
  have h4: "input example_env
              (history (snd (planning example_env (float_literal (1 / 100)) initial_world)))
              ''Type 'CONFIRM' to proceed: '' = Returns ''no''"
    by (simp add: example_env_def)
  have h5: "''no'' \<noteq> ''CONFIRM''"
    by simp
  note t = cancelled_live_run_submits_nothing_and_fails [OF h1 h2 h3 h4 h5]
  have i: "submitted_orders (history initial_world) = []" "files initial_world = Map.empty"
    by (simp_all add: initial_world_def)
  from t have "run_liquidation example_env ''cdp_api_key.json'' (float_literal (1 / 100))
                  True initial_world
                = (Inr False, log_event (Input ''Type 'CONFIRM' to proceed: '')
                                (snd (planning example_env (float_literal (1 / 100)) initial_world)))"
    by blast
  then have r: "fst (run_liquidation example_env ''cdp_api_key.json'' (float_literal (1 / 100))
                       True initial_world) = Inr False"
    by (simp only: fst_conv)
  from t have m: "fst (main example_env ''cdp_api_key.json'' (float_literal (1 / 100)) True
                         initial_world) = 1"
    by blast
  from t have "submitted_orders
                 (history (snd (main example_env ''cdp_api_key.json'' (float_literal (1 / 100))
                                 True initial_world))) = submitted_orders (history initial_world)"
    by blast
  then have ord: "submitted_orders
                    (history (snd (main example_env ''cdp_api_key.json'' (float_literal (1 / 100))
                                    True initial_world))) = []"
    by (simp only: i)
  from t have "files (snd (main example_env ''cdp_api_key.json'' (float_literal (1 / 100)) True
                             initial_world)) = files initial_world"
    by blast
  then have f: "files (snd (main example_env ''cdp_api_key.json'' (float_literal (1 / 100)) True
                              initial_world)) = Map.empty"
    by (simp only: i)
  from h1 h2 h3 h4 h5 r m ord f show ?thesis
    by blast
qed

end
